theory Spec2Isabelle
  imports Main "HOL-Library.Word" "HOL-Library.AList"
begin

section \<open>Data model (src/main.go, lines 23-65)\<close>

text \<open>
  Go's \<^verbatim>\<open>int\<close> is a machine integer of 32 or 64 bits, and \<^verbatim>\<open>-\<close> wraps around.
  The model takes the 64 bits of the usual targets; \<open>sint\<close> reads the value as Go does.
\<close>

type_synonym go_int = "64 word"

text \<open>
  A Go \<^verbatim>\<open>map[string]V\<close> is either \<^verbatim>\<open>nil\<close> (\<open>None\<close>) or a table made by
  \<^verbatim>\<open>make\<close> (\<open>Some\<close> of its entries). The entries are kept as an association list in
  one of the orders in which \<^verbatim>\<open>range\<close> may visit them; a Go map holds every key at
  most once, which is \<open>wf_map\<close>.
\<close>

type_synonym 'v go_map = "(string \<times> 'v) list option"

definition make_map :: "'v go_map" where
  "make_map = Some []"

definition range_map :: "'v go_map \<Rightarrow> (string \<times> 'v) list" where
  "range_map m = (case m of None \<Rightarrow> [] | Some entries \<Rightarrow> entries)"

definition index_map :: "'v go_map \<Rightarrow> string \<Rightarrow> 'v option" where
  "index_map m k = map_of (range_map m) k"

definition keys_map :: "'v go_map \<Rightarrow> string set" where
  "keys_map m = fst ` set (range_map m)"

definition wf_map :: "'v go_map \<Rightarrow> bool" where
  "wf_map m = distinct (map fst (range_map m))"

record countCollection =
  Increment :: "go_int go_map"
  Row :: "go_int go_map"

section \<open>The difference of two count collections (src/main.go, lines 450-483)\<close>

text \<open>
  One \<^verbatim>\<open>range\<close> loop of \<^verbatim>\<open>getCountCollectionDifference\<close>: the entries of the minuend
  still to visit, the subtrahend's map, and the difference map built so far.
\<close>

fun rangeDifference ::
  "(string \<times> go_int) list \<Rightarrow> go_int go_map \<Rightarrow> (string \<times> go_int) list \<Rightarrow> (string \<times> go_int) list"
where
  "rangeDifference [] subtrahend difference = difference"
| "rangeDifference ((minCountName, minCount) # rest) subtrahend difference =
     rangeDifference rest subtrahend
       (case index_map subtrahend minCountName of
          Some subCount \<Rightarrow> AList.update minCountName (minCount - subCount) difference
        | None \<Rightarrow> AList.update minCountName 0 difference)"

definition getCountCollectionDifference :: "countCollection \<Rightarrow> countCollection \<Rightarrow> countCollection" where
  "getCountCollectionDifference minuend subtrahend =
     \<lparr> Increment = Some (rangeDifference (range_map (Increment minuend)) (Increment subtrahend) []),
       Row = Some (rangeDifference (range_map (Row minuend)) (Row subtrahend) []) \<rparr>"

section \<open>Configuration, errors, the log and the outside world\<close>

text \<open>
  \<^verbatim>\<open>tableConfig\<close> (lines 53-56): its two fields are called \<^verbatim>\<open>Increment\<close> and \<^verbatim>\<open>Row\<close>
  in the source, as the fields of \<^verbatim>\<open>countCollection\<close> are; here they carry the suffix
  \<open>Tables\<close>. A Go slice is a list; only its length and its elements are used.
\<close>

record tableConfig =
  IncrementTables :: "string list"
  RowTables :: "string list"

record databaseConfig =
  Name :: string
  Host :: string
  Type :: string
  User :: string
  Password :: string
  Database :: string
  Schema :: string
  Tables :: tableConfig

record applicationConfig =
  AwsConfig :: "string go_map"
  CountPath :: string
  Databases :: "databaseConfig list"

text \<open>A Go \<^verbatim>\<open>error\<close> value; \<^verbatim>\<open>nil\<close> is \<open>None\<close> of \<open>error option\<close>.\<close>

datatype error = Error string

text \<open>
  The two counter kinds. They name the two halves of \<^verbatim>\<open>getCountCollection\<close>: the
  code that assembles and runs the increment query (lines 318-324, 337-345, 358-364,
  375-408) and the code for the row query (lines 326-332, 347-355, 366-372, 410-444).
\<close>

datatype counterKind = IncrementKind | RowKind

text \<open>
  A call of \<^verbatim>\<open>log.Printf\<close> or \<^verbatim>\<open>log.Panicf\<close>: the format string as the source writes
  it and the operands. The first field is not in the source: it records which half of
  \<^verbatim>\<open>getCountCollection\<close> made the call (\<open>None\<close> for a call made elsewhere).
\<close>

datatype log_arg = S string | D go_int | E error

datatype log_line = Printf "counterKind option" string "log_arg list"

fun site :: "log_line \<Rightarrow> counterKind option" where
  "site (Printf k format operands) = k"

fun is_WARN :: "log_line \<Rightarrow> bool" where
  "is_WARN (Printf k format operands) = (take 5 format = ''WARN:'')"

text \<open>The datum handed to CloudWatch by \<^verbatim>\<open>PutMetricData\<close> (lines 195-210, 222-237).\<close>

record metricDatum =
  MetricName :: string
  Unit :: string
  Value :: go_int
  DimensionName :: string
  DimensionValue :: string
  Namespace :: string

text \<open>
  What a run does to the outside world, in the order it does it. \<open>Queried\<close> is a call of
  \<^verbatim>\<open>db.Query\<close>, \<open>PutMetric\<close> a call of \<^verbatim>\<open>PutMetricData\<close>, \<open>Created\<close> a successful
  \<^verbatim>\<open>os.Create\<close> followed by the write; \<open>Diffed\<close> records a call of the pure function
  \<^verbatim>\<open>getCountCollectionDifference\<close> for a database name.
\<close>

datatype event =
    Queried counterKind string "string list"
  | Diffed string
  | PutMetric metricDatum
  | Created string

text \<open>The world of a run: the files by path, the log, and the trace of events.\<close>

record world =
  files :: "string \<rightharpoonup> string"
  logged :: "log_line list"
  trace :: "event list"

definition logPrintf :: "counterKind option \<Rightarrow> string \<Rightarrow> log_arg list \<Rightarrow> world \<Rightarrow> world" where
  "logPrintf k format operands w = w\<lparr>logged := logged w @ [Printf k format operands]\<rparr>"

definition record_event :: "event \<Rightarrow> world \<Rightarrow> world" where
  "record_event e w = w\<lparr>trace := trace w @ [e]\<rparr>"

text \<open>
  A row of a query's result as \<^verbatim>\<open>rows.Scan(&tableName, &tableCount)\<close> reads it: the
  two values, or an error together with what \<^verbatim>\<open>tableName\<close> holds then. The second
  component is what \<^verbatim>\<open>rows.Err()\<close> returns after the row.
\<close>

datatype scan = Scanned string go_int | ScanFailed string error

type_synonym row = "scan \<times> error option"

text \<open>
  The libraries the program calls are not part of the repository; they are parameters of
  the model. \<open>sql_Open driver dsn\<close> is the error of \<^verbatim>\<open>sql.Open\<close>; \<open>sqlx_In query tables
  schema\<close> the three results of \<^verbatim>\<open>sqlx.In(query, tables, schema)\<close>; \<open>sqlx_Rebind\<close> is
  \<^verbatim>\<open>sqlx.Rebind(sqlx.DOLLAR, _)\<close>; \<open>db_Query driver dsn query args\<close> the outcome of
  \<^verbatim>\<open>db.Query\<close> on the handle opened with that driver and DSN. \<open>yaml_Marshal\<close>,
  \<open>yaml_Unmarshal\<close> and \<open>yaml_Unmarshal_config\<close> are the YAML library at the two types
  it is used at; \<open>fmt_Fprintf format\<close> is the text \<^verbatim>\<open>fmt.Fprintf(file, format)\<close> writes
  when called with no operands; \<open>os_Create\<close> the error of \<^verbatim>\<open>os.Create\<close>.
  \<open>session_NewSession\<close> and \<open>credentials_Get\<close> take the explicit region, access key id and
  secret (\<open>None\<close> for the default provider chain); \<open>cw_PutMetricData\<close> is the error of one
  \<^verbatim>\<open>PutMetricData\<close> call.
\<close>

record env =
  sql_Open :: "string \<Rightarrow> string \<Rightarrow> error option"
  sqlx_In :: "string \<Rightarrow> string list \<Rightarrow> string \<Rightarrow> string \<times> string list \<times> error option"
  sqlx_Rebind :: "string \<Rightarrow> string"
  db_Query :: "string \<Rightarrow> string \<Rightarrow> string \<Rightarrow> string list \<Rightarrow> error + row list"
  yaml_Marshal :: "countCollection go_map \<Rightarrow> error + string"
  yaml_Unmarshal :: "string \<Rightarrow> error + countCollection go_map"
  yaml_Unmarshal_config :: "string \<Rightarrow> error + applicationConfig"
  fmt_Fprintf :: "string \<Rightarrow> string"
  os_Create :: "string \<Rightarrow> error option"
  session_NewSession :: "(string \<times> string \<times> string) option \<Rightarrow> error option"
  credentials_Get :: "(string \<times> string \<times> string) option \<Rightarrow> error option"
  cw_PutMetricData :: "metricDatum \<Rightarrow> error option"

section \<open>Collecting the counts of one database (src/main.go, lines 252-448)\<close>

text \<open>Lines 264-271: the driver name.\<close>

definition dbType_of :: "databaseConfig \<Rightarrow> string" where
  "dbType_of dbConfig = (if Type dbConfig = [] then ''mysql'' else Type dbConfig)"

text \<open>Lines 273-289: the schema.\<close>

definition dbSchema_of :: "databaseConfig \<Rightarrow> string" where
  "dbSchema_of dbConfig =
     (if Schema dbConfig = [] then
        (if dbType_of dbConfig = ''mysql'' then Database dbConfig
         else if dbType_of dbConfig = ''postgres'' then ''public''
         else Name dbConfig)
      else Schema dbConfig)"

text \<open>Lines 291-300: the data source name, as \<^verbatim>\<open>fmt.Sprintf\<close> puts it together.\<close>

definition dsn_of :: "databaseConfig \<Rightarrow> string" where
  "dsn_of dbConfig =
     (if dbType_of dbConfig = ''mysql'' then
        User dbConfig @ '':'' @ Password dbConfig @ ''@tcp('' @ Host dbConfig @ '')/'' @ Database dbConfig
      else if dbType_of dbConfig = ''postgres'' then
        ''postgres://'' @ User dbConfig @ '':'' @ Password dbConfig @ ''@'' @ Host dbConfig @ ''/'' @ Database dbConfig
      else
        User dbConfig @ '':'' @ Password dbConfig @ ''@tcp('' @ Host dbConfig @ '')/'' @ Database dbConfig)"

text \<open>The query texts of lines 320, 328, 339, 349, 360 and 368.\<close>

definition mysqlIncrementQuery :: string where
  "mysqlIncrementQuery = ''SELECT `TABLE_NAME`, `AUTO_INCREMENT` FROM information_schema.TABLES WHERE TABLE_NAME IN (?) AND TABLE_SCHEMA = ?''"

definition mysqlRowQuery :: string where
  "mysqlRowQuery = ''SELECT `TABLE_NAME`, `TABLE_ROWS` FROM information_schema.TABLES WHERE TABLE_NAME IN (?) AND TABLE_SCHEMA = ?''"

definition postgresIncrementQuery :: string where
  "postgresIncrementQuery = ''SELECT relname,n_live_tup FROM pg_stat_user_tables WHERE relname IN (?) AND schemaname = ?''"

definition postgresRowQuery :: string where
  "postgresRowQuery = ''SELECT relname,n_live_tup FROM pg_stat_user_tables WHERE relname IN (?) AND schemaname = ?''"

definition defaultIncrementQuery :: string where
  "defaultIncrementQuery = ''SELECT TABLE_NAME,AUTO_INCREMENT FROM information_schema.TABLES WHERE TABLE_NAME IN (?) AND TABLE_SCHEMA = ?''"

definition defaultRowQuery :: string where
  "defaultRowQuery = ''SELECT TABLE_NAME,TABLE_ROWS FROM information_schema.TABLES WHERE TABLE_NAME IN (?) AND TABLE_SCHEMA = ?''"

text \<open>
  One of the six blocks of lines 318-372, which differ in the query text, in the table
  list, in the message logged and in whether the query is rebound: when the table list is
  not empty, \<^verbatim>\<open>sqlx.In\<close> assembles the query and its arguments, an error is logged, and
  for PostgreSQL the query is rebound whether or not there was an error. With an empty
  list the query stays the empty string and the arguments \<^verbatim>\<open>nil\<close>, as declared in
  lines 309-314.
\<close>

definition assembleQuery ::
  "env \<Rightarrow> counterKind \<Rightarrow> bool \<Rightarrow> string \<Rightarrow> string \<Rightarrow> string list \<Rightarrow> string \<Rightarrow> world \<Rightarrow>
   (string \<times> string list) \<times> world"
where
  "assembleQuery en kind rebind query failure tables dbSchema w =
     (if length tables > 0 then
        (case sqlx_In en query tables dbSchema of
           (assembled, args, err) \<Rightarrow>
             ((if rebind then sqlx_Rebind en assembled else assembled, args),
              (case err of
                 Some e \<Rightarrow> logPrintf (Some kind) failure [E e] w
               | None \<Rightarrow> w)))
      else (([], []), w))"

text \<open>
  Lines 316-373: the queries for the database's type. The test is on
  \<^verbatim>\<open>dbConfig.Type\<close>, so that an empty type takes the last branch.
\<close>

definition assembleQueries ::
  "env \<Rightarrow> databaseConfig \<Rightarrow> world \<Rightarrow> ((string \<times> string list) \<times> (string \<times> string list)) \<times> world"
where
  "assembleQueries en dbConfig w =
     (if Type dbConfig = ''mysql'' then
        (case assembleQuery en IncrementKind False mysqlIncrementQuery
                ''ERROR: Failed to assemble increment query interface: %s''
                (IncrementTables (Tables dbConfig)) (dbSchema_of dbConfig) w of
           (increment, w1) \<Rightarrow>
             (case assembleQuery en RowKind False mysqlRowQuery
                     ''ERROR: Failed to assemble row query interface: %s''
                     (RowTables (Tables dbConfig)) (dbSchema_of dbConfig) w1 of
                (row, w2) \<Rightarrow> ((increment, row), w2)))
      else if Type dbConfig = ''postgres'' then
        (case assembleQuery en IncrementKind True postgresIncrementQuery
                ''ERROR: Failed to assemble increment query interface: %s''
                (IncrementTables (Tables dbConfig)) (dbSchema_of dbConfig) w of
           (increment, w1) \<Rightarrow>
             (case assembleQuery en RowKind True postgresRowQuery
                     ''ERROR: Failed to assemble row query interface: %s''
                     (RowTables (Tables dbConfig)) (dbSchema_of dbConfig) w1 of
                (row, w2) \<Rightarrow> ((increment, row), w2)))
      else
        (case assembleQuery en IncrementKind False defaultIncrementQuery
                ''ERROR: Failed to assemble increment query interface: %s''
                (IncrementTables (Tables dbConfig)) (dbSchema_of dbConfig) w of
           (increment, w1) \<Rightarrow>
             (case assembleQuery en RowKind False defaultRowQuery
                     ''ERROR: Failed to assemble row query interface: %s''
                     (RowTables (Tables dbConfig)) (dbSchema_of dbConfig) w1 of
                (row, w2) \<Rightarrow> ((increment, row), w2))))"

text \<open>
  The loop \<^verbatim>\<open>for rows.Next()\<close> of lines 383-406 and 419-442: a row that scans is stored
  in the map and logged, a row that does not is logged and skipped; then \<^verbatim>\<open>rows.Err()\<close>
  is logged when it is an error.
\<close>

fun scanRows ::
  "counterKind \<Rightarrow> string \<Rightarrow> row list \<Rightarrow> (string \<times> go_int) list \<Rightarrow> world \<Rightarrow> (string \<times> go_int) list \<times> world"
where
  "scanRows kind name [] counts w = (counts, w)"
| "scanRows kind name ((scanned, rowsErr) # rest) counts w =
     (case (case scanned of
              ScanFailed tableName err \<Rightarrow>
                (counts,
                 logPrintf (Some kind) ''ERROR: Failed to obtain values in database %s for table %s: %s''
                   [S name, S tableName, E err] w)
            | Scanned tableName tableCount \<Rightarrow>
                (AList.update tableName tableCount counts,
                 logPrintf (Some kind) ''INFO: Obtained value in database %s for table %s with count %d''
                   [S name, S tableName, D tableCount] w)) of
        (counts1, w1) \<Rightarrow>
          scanRows kind name rest counts1
            (case rowsErr of
               Some err \<Rightarrow> logPrintf (Some kind) ''ERROR: Row failures for database %s: %s'' [S name, E err] w1
             | None \<Rightarrow> w1))"

text \<open>Lines 375-408 and 410-444: run one query, if there is one, and read its rows.\<close>

definition runQuery ::
  "env \<Rightarrow> counterKind \<Rightarrow> databaseConfig \<Rightarrow> string \<times> string list \<Rightarrow> world \<Rightarrow> (string \<times> go_int) list \<times> world"
where
  "runQuery en kind dbConfig q w =
     (case q of
        (query, args) \<Rightarrow>
          if query \<noteq> [] \<and> length args > 0 then
            (case db_Query en (dbType_of dbConfig) (dsn_of dbConfig) query args of
               Inl err \<Rightarrow>
                 ([], logPrintf (Some kind) ''ERROR: Failed to query database %s: %s'' [S (Name dbConfig), E err]
                        (record_event (Queried kind query args) w))
             | Inr rows \<Rightarrow>
                 scanRows kind (Name dbConfig) rows [] (record_event (Queried kind query args) w))
          else ([], w))"

text \<open>
  \<^verbatim>\<open>getCountCollection\<close>: both maps are made first; an error of \<^verbatim>\<open>sql.Open\<close> is the only
  error returned. The deferred \<^verbatim>\<open>Close\<close> calls release resources and are not modelled.
\<close>

definition getCountCollection ::
  "env \<Rightarrow> databaseConfig \<Rightarrow> world \<Rightarrow> (countCollection \<times> error option) \<times> world"
where
  "getCountCollection en dbConfig w =
     (case sql_Open en (dbType_of dbConfig) (dsn_of dbConfig) of
        Some err \<Rightarrow> ((\<lparr>Increment = make_map, Row = make_map\<rparr>, Some err), w)
      | None \<Rightarrow>
          (case assembleQueries en dbConfig w of
             ((increment, row), w1) \<Rightarrow>
               (case runQuery en IncrementKind dbConfig increment w1 of
                  (incrementCounts, w2) \<Rightarrow>
                    (case runQuery en RowKind dbConfig row w2 of
                       (rowCounts, w3) \<Rightarrow>
                         ((\<lparr>Increment = Some incrementCounts, Row = Some rowCounts\<rparr>, None), w3)))))"

section \<open>The counts file and the configuration file (src/main.go, lines 485-548)\<close>

text \<open>
  \<^verbatim>\<open>ioutil.ReadFile\<close> fails on a file that does not exist; other failures of reading are
  not modelled. The YAML library then maps the text to the value.
\<close>

definition loadApplicationConfig :: "env \<Rightarrow> string \<Rightarrow> world \<Rightarrow> error + applicationConfig" where
  "loadApplicationConfig en fileName w =
     (case files w fileName of
        None \<Rightarrow> Inl (Error ''no such file or directory'')
      | Some configSource \<Rightarrow> yaml_Unmarshal_config en configSource)"

definition loadCountCollections :: "env \<Rightarrow> string \<Rightarrow> world \<Rightarrow> error + countCollection go_map" where
  "loadCountCollections en fileName w =
     (case files w fileName of
        None \<Rightarrow> Inl (Error ''no such file or directory'')
      | Some countCollectionsSource \<Rightarrow> yaml_Unmarshal en countCollectionsSource)"

text \<open>
  \<^verbatim>\<open>writeCountCollections\<close>: the map is marshalled, the file is created (and so
  emptied), and line 544 hands the YAML text to \<^verbatim>\<open>fmt.Fprintf\<close> as its format string,
  with no operands; what \<^verbatim>\<open>Fprintf\<close> returns is dropped.
\<close>

definition writeCountCollections ::
  "env \<Rightarrow> string \<Rightarrow> countCollection go_map \<Rightarrow> world \<Rightarrow> error option \<times> world"
where
  "writeCountCollections en fileName countCollections w =
     (case yaml_Marshal en countCollections of
        Inl err \<Rightarrow> (Some err, w)
      | Inr countCollectionsYaml \<Rightarrow>
          (case os_Create en fileName of
             Some err \<Rightarrow> (Some err, w)
           | None \<Rightarrow>
               (None,
                record_event (Created fileName)
                  (w\<lparr>files := (files w)(fileName \<mapsto> fmt_Fprintf en countCollectionsYaml)\<rparr>))))"

section \<open>Publishing the differences (src/main.go, lines 148-250)\<close>

text \<open>\<^verbatim>\<open>awsConfig["key"]\<close>: the empty string for a key the map lacks, and for a nil map.\<close>

definition index_zero :: "string go_map \<Rightarrow> string \<Rightarrow> string" where
  "index_zero m k = (case index_map m k of None \<Rightarrow> [] | Some v \<Rightarrow> v)"

text \<open>Lines 160-166.\<close>

definition namespace_of :: "string go_map \<Rightarrow> string" where
  "namespace_of awsConfig =
     (if index_zero awsConfig ''namespace'' = [] then ''RowMetrics''
      else index_zero awsConfig ''namespace'')"

text \<open>Lines 168-177: the default provider chain for a nil map, the explicit values otherwise.\<close>

definition credentials_of :: "string go_map \<Rightarrow> (string \<times> string \<times> string) option" where
  "credentials_of awsConfig =
     (case awsConfig of
        None \<Rightarrow> None
      | Some entries \<Rightarrow>
          Some (index_zero awsConfig ''region'', index_zero awsConfig ''accessKeyId'',
                index_zero awsConfig ''secretAccessKey''))"

text \<open>
  The two inner loops of lines 193-218 and 220-245, which differ in the messages they
  log. \<open>Value\<close> holds the integer count. The source sends \<^verbatim>\<open>float64(count)\<close> (lines 200
  and 227), which is the count itself up to \<open>2 ^ 53\<close> in magnitude and the nearest
  representable number beyond; that rounding is not modelled.
\<close>

fun putCounts ::
  "env \<Rightarrow> string \<Rightarrow> string \<Rightarrow> string \<Rightarrow> string \<Rightarrow> (string \<times> go_int) list \<Rightarrow> world \<Rightarrow> world"
where
  "putCounts en failure success namespace countCollectionName [] w = w"
| "putCounts en failure success namespace countCollectionName ((countName, count) # rest) w =
     putCounts en failure success namespace countCollectionName rest
       (case cw_PutMetricData en
               \<lparr>MetricName = countName, Unit = ''Count'', Value = count,
                DimensionName = ''DBInstanceIdentifier'', DimensionValue = countCollectionName,
                Namespace = namespace\<rparr> of
          Some err \<Rightarrow>
            logPrintf None failure [S countName, D count, E err]
              (record_event (PutMetric
                 \<lparr>MetricName = countName, Unit = ''Count'', Value = count,
                  DimensionName = ''DBInstanceIdentifier'', DimensionValue = countCollectionName,
                  Namespace = namespace\<rparr>) w)
        | None \<Rightarrow>
            logPrintf None success [S countName, D count]
              (record_event (PutMetric
                 \<lparr>MetricName = countName, Unit = ''Count'', Value = count,
                  DimensionName = ''DBInstanceIdentifier'', DimensionValue = countCollectionName,
                  Namespace = namespace\<rparr>) w))"

text \<open>The outer loop of lines 191-246.\<close>

fun putCollections :: "env \<Rightarrow> string \<Rightarrow> (string \<times> countCollection) list \<Rightarrow> world \<Rightarrow> world" where
  "putCollections en namespace [] w = w"
| "putCollections en namespace ((countCollectionName, countCollection) # rest) w =
     putCollections en namespace rest
       (putCounts en
          ''ERROR: Failed to push Cloudwatch metric for table %s with difference %d: %s''
          ''INFO: Pushed Cloudwatch metric for table %s with difference %d''
          namespace countCollectionName (range_map (Row countCollection))
          (putCounts en
             ''WARN: Failed to push Cloudwatch metric for table %s with count %d: %s''
             ''INFO: Pushed Cloudwatch metric for table %s with count %d''
             namespace countCollectionName (range_map (Increment countCollection)) w))"

definition putAWSCountCollectionMetrics ::
  "env \<Rightarrow> countCollection go_map \<Rightarrow> string go_map \<Rightarrow> world \<Rightarrow> error option \<times> world"
where
  "putAWSCountCollectionMetrics en countCollections awsConfig w =
     (case session_NewSession en (credentials_of awsConfig) of
        Some err \<Rightarrow> (Some err, w)
      | None \<Rightarrow>
          (case credentials_Get en (credentials_of awsConfig) of
             Some err \<Rightarrow> (Some err, w)
           | None \<Rightarrow> (None, putCollections en (namespace_of awsConfig) (range_map countCollections) w)))"

section \<open>The run (src/main.go, lines 67-146)\<close>

text \<open>
  How the process ends: \<^verbatim>\<open>os.Exit\<close> with a status, or the panic raised by
  \<^verbatim>\<open>log.Panicf\<close>, which logs its message first.
\<close>

datatype outcome = Exited int | Panicked string "log_arg list"

definition panicf :: "string \<Rightarrow> log_arg list \<Rightarrow> world \<Rightarrow> outcome \<times> world" where
  "panicf format operands w = (Panicked format operands, logPrintf None format operands w)"

text \<open>Lines 83-93: the loop over the configured databases; it stops at the first error.\<close>

fun collectDatabases ::
  "env \<Rightarrow> databaseConfig list \<Rightarrow> (string \<times> countCollection) list \<Rightarrow> world \<Rightarrow>
   ((string \<times> error) + (string \<times> countCollection) list) \<times> world"
where
  "collectDatabases en [] curCountCollections w = (Inr curCountCollections, w)"
| "collectDatabases en (database # rest) curCountCollections w =
     (case getCountCollection en database w of
        ((curCountCollection, Some err), w1) \<Rightarrow> (Inl (Name database, err), w1)
      | ((curCountCollection, None), w1) \<Rightarrow>
          collectDatabases en rest
            (AList.update (Name database) curCountCollection curCountCollections) w1)"

text \<open>
  Lines 115-130: the loop over the current collections; a database without a collection
  in the last session is skipped.
\<close>

fun diffCollections ::
  "(string \<times> countCollection) list \<Rightarrow> countCollection go_map \<Rightarrow> (string \<times> countCollection) list \<Rightarrow>
   world \<Rightarrow> (string \<times> countCollection) list \<times> world"
where
  "diffCollections [] lastCountCollections diffCountCollections w = (diffCountCollections, w)"
| "diffCollections ((curCountCollectionName, curCountCollection) # rest) lastCountCollections
       diffCountCollections w =
     (case index_map lastCountCollections curCountCollectionName of
        Some lastCountCollection \<Rightarrow>
          diffCollections rest lastCountCollections
            (AList.update curCountCollectionName
               (getCountCollectionDifference curCountCollection lastCountCollection)
               diffCountCollections)
            (record_event (Diffed curCountCollectionName) w)
      | None \<Rightarrow> diffCollections rest lastCountCollections diffCountCollections w)"

text \<open>
  \<^verbatim>\<open>main\<close>. \<open>configPath\<close> is the value of the \<^verbatim>\<open>-config\<close> flag. \<^verbatim>\<open>os.Stat\<close> reports
  that the counts file does not exist exactly when the file system has no file there.
\<close>

definition main :: "env \<Rightarrow> string \<Rightarrow> world \<Rightarrow> outcome \<times> world" where
  "main en configPath w =
     (case loadApplicationConfig en configPath w of
        Inl err \<Rightarrow> panicf ''FATAL: Failed to load application config YAML: %s'' [E err] w
      | Inr config \<Rightarrow>
          (case collectDatabases en (Databases config) [] w of
             (Inl (name, err), w1) \<Rightarrow>
               panicf ''FATAL: Failed to get counts for database %s: %s'' [S name, E err] w1
           | (Inr curCountCollections, w1) \<Rightarrow>
               if files w1 (CountPath config) = None then
                 (case writeCountCollections en (CountPath config) (Some curCountCollections) w1 of
                    (Some err, w2) \<Rightarrow> panicf ''FATAL: Failed to write counts YAML: %s'' [E err] w2
                  | (None, w2) \<Rightarrow> (Exited 0, w2))
               else
                 (case loadCountCollections en (CountPath config) w1 of
                    Inl err \<Rightarrow> panicf ''FATAL: Failed to load counts YAML: %s'' [E err] w1
                  | Inr lastCountCollections \<Rightarrow>
                      (case diffCollections curCountCollections lastCountCollections [] w1 of
                         (diffCountCollections, w2) \<Rightarrow>
                           (case putAWSCountCollectionMetrics en (Some diffCountCollections)
                                   (AwsConfig config) w2 of
                              (published, w3) \<Rightarrow>
                                (case writeCountCollections en (CountPath config) (Some curCountCollections)
                                        (case published of
                                           Some err \<Rightarrow>
                                             logPrintf None ''ERROR: Failed to push Cloudwatch metrics: %s''
                                               [E err] w3
                                         | None \<Rightarrow> w3) of
                                   (Some err, w4) \<Rightarrow>
                                     panicf ''FATAL: Failed to save counts YAML: %s'' [E err] w4
                                 | (None, w4) \<Rightarrow> (Exited 0, w4)))))))"

section \<open>Reading a run\<close>

text \<open>What a step added to the log and to the trace.\<close>

definition new_logged :: "world \<Rightarrow> world \<Rightarrow> log_line list" where
  "new_logged w w' = drop (length (logged w)) (logged w')"

definition new_trace :: "world \<Rightarrow> world \<Rightarrow> event list" where
  "new_trace w w' = drop (length (trace w)) (trace w')"

fun is_query_of :: "counterKind \<Rightarrow> event \<Rightarrow> bool" where
  "is_query_of kind (Queried k query args) = (k = kind)"
| "is_query_of kind (Diffed name) = False"
| "is_query_of kind (PutMetric datum) = False"
| "is_query_of kind (Created path) = False"

fun is_diff_or_put :: "event \<Rightarrow> bool" where
  "is_diff_or_put (Queried k query args) = False"
| "is_diff_or_put (Diffed name) = True"
| "is_diff_or_put (PutMetric datum) = True"
| "is_diff_or_put (Created path) = False"

text \<open>
  \<open>grows field P w w'\<close>: from \<open>w\<close> to \<open>w'\<close> the log (or the trace) was only appended to,
  and everything appended satisfies \<open>P\<close>.
\<close>

definition grows :: "(world \<Rightarrow> 'a list) \<Rightarrow> ('a \<Rightarrow> bool) \<Rightarrow> world \<Rightarrow> world \<Rightarrow> bool" where
  "grows field P w w' = (\<exists>xs. field w' = field w @ xs \<and> list_all P xs)"

text \<open>The lines one half of the collection logs: they carry its kind and none is a warning.\<close>

definition collect_line :: "counterKind \<Rightarrow> log_line \<Rightarrow> bool" where
  "collect_line kind l = (site l = Some kind \<and> \<not> is_WARN l)"

section \<open>An example environment\<close>

text \<open>
  The theorems below hold for every environment. The examples run the program in this
  one. \<^verbatim>\<open>sqlx.In\<close> on a list of tables and a schema: the first placeholder becomes one
  placeholder per table, and the arguments are the tables followed by the schema.
\<close>

fun placeholders :: "nat \<Rightarrow> string" where
  "placeholders 0 = []"
| "placeholders (Suc 0) = ''?''"
| "placeholders (Suc (Suc n)) = ''?, '' @ placeholders (Suc n)"

fun expand_first :: "string \<Rightarrow> string \<Rightarrow> string" where
  "expand_first inserted [] = []"
| "expand_first inserted (c # cs) =
     (if c = CHR ''?'' then inserted @ cs else c # expand_first inserted cs)"

definition example_In :: "string \<Rightarrow> string list \<Rightarrow> string \<Rightarrow> string \<times> string list \<times> error option" where
  "example_In query tables schema =
     (if tables = [] then ([], [], Some (Error ''sqlx: empty slice passed to in query''))
      else (expand_first (placeholders (length tables)) query, tables @ [schema], None))"

text \<open>\<^verbatim>\<open>sqlx.Rebind\<close> with \<^verbatim>\<open>sqlx.DOLLAR\<close>, for queries of up to nine placeholders.\<close>

fun number_from :: "nat \<Rightarrow> string \<Rightarrow> string" where
  "number_from n [] = []"
| "number_from n (c # cs) =
     (if c = CHR ''?'' then CHR ''$'' # (''0123456789'' ! n) # number_from (Suc n) cs
      else c # number_from n cs)"

definition example_Rebind :: "string \<Rightarrow> string" where
  "example_Rebind query = number_from 1 query"

text \<open>
  A PostgreSQL server whose table \<open>events\<close> in schema \<open>public\<close> has 7 live rows, and a
  MySQL server whose table \<open>orders\<close> in schema \<open>shop\<close> has the auto-increment value 150;
  every other query fails.
\<close>

definition example_Query :: "string \<Rightarrow> string \<Rightarrow> string \<Rightarrow> string list \<Rightarrow> error + row list" where
  "example_Query driver dsn query args =
     (if driver = ''postgres'' \<and>
         query = ''SELECT relname,n_live_tup FROM pg_stat_user_tables WHERE relname IN ($1) AND schemaname = $2'' \<and>
         args = [''events'', ''public'']
      then Inr [(Scanned ''events'' 7, None)]
      else if driver = ''mysql'' \<and>
         query = ''SELECT `TABLE_NAME`, `AUTO_INCREMENT` FROM information_schema.TABLES WHERE TABLE_NAME IN (?) AND TABLE_SCHEMA = ?'' \<and>
         args = [''orders'', ''shop'']
      then Inr [(Scanned ''orders'' 150, None)]
      else Inl (Error ''connection refused''))"

text \<open>
  What Go's \<^verbatim>\<open>fmt.Fprintf\<close> writes for a format without operands, when no percent sign
  of the format is followed by a flag, a width, a precision or an argument index: text is
  copied, \<^verbatim>\<open>%%\<close> is a percent sign, a verb is written as \<^verbatim>\<open>%!verb(MISSING)\<close> and a
  percent sign that ends the format as \<^verbatim>\<open>%!(NOVERB)\<close>.
\<close>

fun example_Fprintf :: "string \<Rightarrow> string" where
  "example_Fprintf [] = []"
| "example_Fprintf [c] = (if c = CHR ''%'' then ''%!(NOVERB)'' else [c])"
| "example_Fprintf (c # verb # rest) =
     (if c \<noteq> CHR ''%'' then c # example_Fprintf (verb # rest)
      else if verb = CHR ''%'' then CHR ''%'' # example_Fprintf rest
      else ''%!'' @ [verb] @ ''(MISSING)'' @ example_Fprintf rest)"

text \<open>The targets, the configuration and the counts of the examples, and their YAML.\<close>

definition events_target :: databaseConfig where
  "events_target =
     \<lparr>Name = ''events'', Host = ''db:5432'', Type = ''postgres'', User = ''metrics'', Password = ''pw'',
      Database = ''app'', Schema = [],
      Tables = \<lparr>IncrementTables = [], RowTables = [''events'']\<rparr>\<rparr>"

definition orders_target :: databaseConfig where
  "orders_target =
     \<lparr>Name = ''orders'', Host = ''db:3306'', Type = ''mysql'', User = ''metrics'', Password = ''pw'',
      Database = ''shop'', Schema = [],
      Tables = \<lparr>IncrementTables = [''orders''], RowTables = []\<rparr>\<rparr>"

definition both_target :: databaseConfig where
  "both_target =
     \<lparr>Name = ''events'', Host = ''db:5432'', Type = ''postgres'', User = ''metrics'', Password = ''pw'',
      Database = ''app'', Schema = [],
      Tables = \<lparr>IncrementTables = [''events''], RowTables = [''events'']\<rparr>\<rparr>"

definition example_config :: applicationConfig where
  "example_config = \<lparr>AwsConfig = None, CountPath = ''counts.yml'', Databases = [events_target]\<rparr>"

definition example_config_yaml :: string where
  "example_config_yaml =
     ''countPath: counts.yml\<newline>databases:\<newline>- name: events\<newline>  host: db:5432\<newline>  type: postgres\<newline>  user: metrics\<newline>  password: pw\<newline>  database: app\<newline>  tables:\<newline>    row:\<newline>    - events\<newline>''"

definition events_counts :: "go_int \<Rightarrow> countCollection go_map" where
  "events_counts n = Some [(''events'', \<lparr>Increment = Some [], Row = Some [(''events'', n)]\<rparr>)]"

definition events_yaml_7 :: string where
  "events_yaml_7 = ''events:\<newline>  increment: {}\<newline>  row:\<newline>    events: 7\<newline>''"

definition events_yaml_10 :: string where
  "events_yaml_10 = ''events:\<newline>  increment: {}\<newline>  row:\<newline>    events: 10\<newline>''"

definition events_empty_yaml :: string where
  "events_empty_yaml = ''events:\<newline>  increment: {}\<newline>  row: {}\<newline>''"

definition percent_counts :: "countCollection go_map" where
  "percent_counts = Some [(''metrics'', \<lparr>Increment = Some [], Row = Some [(''disk%used'', 42)]\<rparr>)]"

definition percent_yaml :: string where
  "percent_yaml = ''metrics:\<newline>  increment: {}\<newline>  row:\<newline>    disk%used: 42\<newline>''"

definition missing_counts :: "countCollection go_map" where
  "missing_counts = Some [(''metrics'', \<lparr>Increment = Some [], Row = Some [(''disk%!u(MISSING)sed'', 42)]\<rparr>)]"

definition missing_yaml :: string where
  "missing_yaml = ''metrics:\<newline>  increment: {}\<newline>  row:\<newline>    disk%!u(MISSING)sed: 42\<newline>''"

text \<open>The YAML library on the values of the examples.\<close>

definition example_Marshal :: "countCollection go_map \<Rightarrow> error + string" where
  "example_Marshal countCollections =
     (if countCollections = events_counts 7 then Inr events_yaml_7
      else if countCollections = events_counts 10 then Inr events_yaml_10
      else if countCollections = Some [(''events'', \<lparr>Increment = Some [], Row = Some []\<rparr>)]
        then Inr events_empty_yaml
      else if countCollections = percent_counts then Inr percent_yaml
      else Inl (Error ''yaml: not one of the examples''))"

definition example_Unmarshal :: "string \<Rightarrow> error + countCollection go_map" where
  "example_Unmarshal source =
     (if source = events_yaml_7 then Inr (events_counts 7)
      else if source = events_yaml_10 then Inr (events_counts 10)
      else if source = events_empty_yaml
        then Inr (Some [(''events'', \<lparr>Increment = Some [], Row = Some []\<rparr>)])
      else if source = percent_yaml then Inr percent_counts
      else if source = missing_yaml then Inr missing_counts
      else Inl (Error ''yaml: not one of the examples''))"

definition example_Unmarshal_config :: "string \<Rightarrow> error + applicationConfig" where
  "example_Unmarshal_config source =
     (if source = example_config_yaml then Inr example_config
      else Inl (Error ''yaml: not one of the examples''))"

definition example_env :: env where
  "example_env =
     \<lparr>sql_Open = (\<lambda>driver dsn. None),
      sqlx_In = example_In,
      sqlx_Rebind = example_Rebind,
      db_Query = example_Query,
      yaml_Marshal = example_Marshal,
      yaml_Unmarshal = example_Unmarshal,
      yaml_Unmarshal_config = example_Unmarshal_config,
      fmt_Fprintf = example_Fprintf,
      os_Create = (\<lambda>path. None),
      session_NewSession = (\<lambda>explicit. None),
      credentials_Get = (\<lambda>explicit. None),
      cw_PutMetricData = (\<lambda>datum. None)\<rparr>"


definition no_credentials_env :: env where
  "no_credentials_env = example_env\<lparr>session_NewSession := (\<lambda>explicit. Some (Error ''NoCredentialProviders''))\<rparr>"

text \<open>A machine before the first run, and one on which a run has left 10 rows counted.\<close>

definition empty_world :: world where
  "empty_world = \<lparr>files = Map.empty, logged = [], trace = []\<rparr>"

definition first_world :: world where
  "first_world = \<lparr>files = [''config.yml'' \<mapsto> example_config_yaml], logged = [], trace = []\<rparr>"

definition later_world :: world where
  "later_world =
     \<lparr>files = [''config.yml'' \<mapsto> example_config_yaml, ''counts.yml'' \<mapsto> events_yaml_10],
      logged = [], trace = []\<rparr>"

text \<open>
  A second machine, without AWS credentials: its PostgreSQL server has a table
  \<open>disk%used\<close> of 42 live rows in schema \<open>public\<close>, and an earlier counts file, where
  there is one, records 40 rows for it.
\<close>

definition metrics_target :: databaseConfig where
  "metrics_target =
     \<lparr>Name = ''metrics'', Host = ''db:5432'', Type = ''postgres'', User = ''metrics'', Password = ''pw'',
      Database = ''app'', Schema = [],
      Tables = \<lparr>IncrementTables = [], RowTables = [''disk%used'']\<rparr>\<rparr>"

definition percent_config :: applicationConfig where
  "percent_config = \<lparr>AwsConfig = None, CountPath = ''counts.yml'', Databases = [metrics_target]\<rparr>"

definition percent_config_yaml :: string where
  "percent_config_yaml =
     ''countPath: counts.yml\<newline>databases:\<newline>- name: metrics\<newline>  host: db:5432\<newline>  type: postgres\<newline>  user: metrics\<newline>  password: pw\<newline>  database: app\<newline>  tables:\<newline>    row:\<newline>    - disk%used\<newline>''"

definition earlier_percent_counts :: "countCollection go_map" where
  "earlier_percent_counts = Some [(''metrics'', \<lparr>Increment = Some [], Row = Some [(''disk%used'', 40)]\<rparr>)]"

definition earlier_percent_yaml :: string where
  "earlier_percent_yaml = ''metrics:\<newline>  increment: {}\<newline>  row:\<newline>    disk%used: 40\<newline>''"

definition percent_Query :: "string \<Rightarrow> string \<Rightarrow> string \<Rightarrow> string list \<Rightarrow> error + row list" where
  "percent_Query driver dsn query args =
     (if driver = ''postgres'' \<and>
         query = ''SELECT relname,n_live_tup FROM pg_stat_user_tables WHERE relname IN ($1) AND schemaname = $2'' \<and>
         args = [''disk%used'', ''public'']
      then Inr [(Scanned ''disk%used'' 42, None)]
      else Inl (Error ''connection refused''))"

definition percent_Unmarshal :: "string \<Rightarrow> error + countCollection go_map" where
  "percent_Unmarshal source =
     (if source = earlier_percent_yaml then Inr earlier_percent_counts
      else example_Unmarshal source)"

definition percent_Unmarshal_config :: "string \<Rightarrow> error + applicationConfig" where
  "percent_Unmarshal_config source =
     (if source = percent_config_yaml then Inr percent_config
      else Inl (Error ''yaml: not one of the examples''))"

definition percent_env :: env where
  "percent_env =
     \<lparr>sql_Open = (\<lambda>driver dsn. None),
      sqlx_In = example_In,
      sqlx_Rebind = example_Rebind,
      db_Query = percent_Query,
      yaml_Marshal = example_Marshal,
      yaml_Unmarshal = percent_Unmarshal,
      yaml_Unmarshal_config = percent_Unmarshal_config,
      fmt_Fprintf = example_Fprintf,
      os_Create = (\<lambda>path. None),
      session_NewSession = (\<lambda>explicit. Some (Error ''NoCredentialProviders'')),
      credentials_Get = (\<lambda>explicit. None),
      cw_PutMetricData = (\<lambda>datum. None)\<rparr>"

definition percent_first_world :: world where
  "percent_first_world = \<lparr>files = [''config.yml'' \<mapsto> percent_config_yaml], logged = [], trace = []\<rparr>"

definition percent_later_world :: world where
  "percent_later_world =
     \<lparr>files = [''config.yml'' \<mapsto> percent_config_yaml, ''counts.yml'' \<mapsto> earlier_percent_yaml],
      logged = [], trace = []\<rparr>"


section \<open>The examples, evaluated\<close>

lemmas collect_defs =
  getCountCollection_def assembleQueries_def assembleQuery_def runQuery_def
  example_In_def example_Rebind_def example_Query_def
  mysqlIncrementQuery_def mysqlRowQuery_def postgresRowQuery_def postgresIncrementQuery_def
  defaultIncrementQuery_def defaultRowQuery_def
  dbType_of_def dbSchema_of_def dsn_of_def logPrintf_def record_event_def

lemmas example_values =
  example_config_def example_config_yaml_def events_counts_def events_yaml_7_def events_yaml_10_def
  events_empty_yaml_def example_Marshal_def example_Unmarshal_def example_Unmarshal_config_def
  percent_counts_def percent_yaml_def missing_counts_def missing_yaml_def

lemmas run_defs =
  main_def loadApplicationConfig_def loadCountCollections_def writeCountCollections_def
  putAWSCountCollectionMetrics_def getCountCollectionDifference_def index_map_def range_map_def
  credentials_of_def namespace_of_def index_zero_def panicf_def logPrintf_def record_event_def

lemma events_target_Name: "Name events_target = ''events''"
  by (simp add: events_target_def)

lemma example_env_simps:
  "sql_Open example_env = (\<lambda>driver dsn. None)"
  "sqlx_In example_env = example_In"
  "sqlx_Rebind example_env = example_Rebind"
  "db_Query example_env = example_Query"
  "yaml_Marshal example_env = example_Marshal"
  "yaml_Unmarshal example_env = example_Unmarshal"
  "yaml_Unmarshal_config example_env = example_Unmarshal_config"
  "fmt_Fprintf example_env = example_Fprintf"
  "os_Create example_env = (\<lambda>path. None)"
  "session_NewSession example_env = (\<lambda>explicit. None)"
  "credentials_Get example_env = (\<lambda>explicit. None)"
  "cw_PutMetricData example_env = (\<lambda>datum. None)"
  by (simp_all add: example_env_def)


lemma no_credentials_env_simps:
  "sql_Open no_credentials_env = (\<lambda>driver dsn. None)"
  "sqlx_In no_credentials_env = example_In"
  "sqlx_Rebind no_credentials_env = example_Rebind"
  "db_Query no_credentials_env = example_Query"
  "yaml_Marshal no_credentials_env = example_Marshal"
  "yaml_Unmarshal no_credentials_env = example_Unmarshal"
  "yaml_Unmarshal_config no_credentials_env = example_Unmarshal_config"
  "fmt_Fprintf no_credentials_env = example_Fprintf"
  "os_Create no_credentials_env = (\<lambda>path. None)"
  "session_NewSession no_credentials_env = (\<lambda>explicit. Some (Error ''NoCredentialProviders''))"
  "credentials_Get no_credentials_env = (\<lambda>explicit. None)"
  "cw_PutMetricData no_credentials_env = (\<lambda>datum. None)"
  by (simp_all add: no_credentials_env_def example_env_def)

lemma events_run:
  "getCountCollection example_env events_target w =
     ((\<lparr>Increment = Some [], Row = Some [(''events'', 7)]\<rparr>, None),
      w\<lparr>logged := logged w @ [Printf (Some RowKind) ''INFO: Obtained value in database %s for table %s with count %d''
                   [S ''events'', S ''events'', D 7]],
       trace := trace w @ [Queried RowKind
                  ''SELECT relname,n_live_tup FROM pg_stat_user_tables WHERE relname IN ($1) AND schemaname = $2''
                  [''events'', ''public'']]\<rparr>)"
  by (simp add: collect_defs example_env_def events_target_def)

lemma both_run:
  "getCountCollection example_env both_target w =
     ((\<lparr>Increment = Some [(''events'', 7)], Row = Some [(''events'', 7)]\<rparr>, None),
      w\<lparr>logged := logged w @
          [Printf (Some IncrementKind) ''INFO: Obtained value in database %s for table %s with count %d''
             [S ''events'', S ''events'', D 7],
           Printf (Some RowKind) ''INFO: Obtained value in database %s for table %s with count %d''
             [S ''events'', S ''events'', D 7]],
        trace := trace w @
          [Queried IncrementKind
             ''SELECT relname,n_live_tup FROM pg_stat_user_tables WHERE relname IN ($1) AND schemaname = $2''
             [''events'', ''public''],
           Queried RowKind
             ''SELECT relname,n_live_tup FROM pg_stat_user_tables WHERE relname IN ($1) AND schemaname = $2''
             [''events'', ''public'']]\<rparr>)"
  by (simp add: collect_defs example_env_def both_target_def)

lemma orders_run:
  "getCountCollection example_env orders_target w =
     ((\<lparr>Increment = Some [(''orders'', 150)], Row = Some []\<rparr>, None),
      w\<lparr>logged := logged w @
          [Printf (Some IncrementKind) ''INFO: Obtained value in database %s for table %s with count %d''
             [S ''orders'', S ''orders'', D 150]],
        trace := trace w @
          [Queried IncrementKind
             ''SELECT `TABLE_NAME`, `AUTO_INCREMENT` FROM information_schema.TABLES WHERE TABLE_NAME IN (?) AND TABLE_SCHEMA = ?''
             [''orders'', ''shop'']]\<rparr>)"
  by (simp add: collect_defs example_env_def orders_target_def)


lemma no_credentials_run:
  "getCountCollection no_credentials_env events_target w = getCountCollection example_env events_target w"
  by (simp add: collect_defs no_credentials_env_def example_env_def)

lemma example_collect:
  "collectDatabases example_env (Databases example_config) [] w =
     (Inr [(''events'', \<lparr>Increment = Some [], Row = Some [(''events'', 7)]\<rparr>)],
      w\<lparr>logged := logged w @ [Printf (Some RowKind) ''INFO: Obtained value in database %s for table %s with count %d''
                   [S ''events'', S ''events'', D 7]],
       trace := trace w @ [Queried RowKind
                  ''SELECT relname,n_live_tup FROM pg_stat_user_tables WHERE relname IN ($1) AND schemaname = $2''
                  [''events'', ''public'']]\<rparr>)"
  by (simp add: example_config_def events_run) (simp add: events_target_def)

lemma example_load_config:
  "loadApplicationConfig example_env ''config.yml'' first_world = Inr example_config"
  "loadApplicationConfig example_env ''config.yml'' later_world = Inr example_config"
  by (simp_all add: loadApplicationConfig_def first_world_def later_world_def example_env_simps
      example_Unmarshal_config_def)

lemma example_marshal_7:
  "yaml_Marshal example_env (Some [(''events'', \<lparr>Increment = Some [], Row = Some [(''events'', 7)]\<rparr>)]) = Inr events_yaml_7"
  by (simp add: example_env_simps example_Marshal_def events_counts_def)

lemma example_Fprintf_7: "fmt_Fprintf example_env events_yaml_7 = events_yaml_7"
  by (simp add: example_env_simps events_yaml_7_def)

lemma first_run_example:
  "main example_env ''config.yml'' first_world =
     (Exited 0,
      \<lparr>files = [''config.yml'' \<mapsto> example_config_yaml, ''counts.yml'' \<mapsto> events_yaml_7],
       logged = [Printf (Some RowKind) ''INFO: Obtained value in database %s for table %s with count %d''
                   [S ''events'', S ''events'', D 7]],
       trace = [Queried RowKind
                  ''SELECT relname,n_live_tup FROM pg_stat_user_tables WHERE relname IN ($1) AND schemaname = $2''
                  [''events'', ''public''],
                Created ''counts.yml'']\<rparr>)"
  by (simp add: main_def example_load_config example_collect writeCountCollections_def
      example_marshal_7 example_Fprintf_7 record_event_def)
    (simp add: first_world_def example_config_def example_env_simps record_event_def events_yaml_7_def)

lemma later_main:
  "main example_env ''config.yml'' later_world =
    (Exited 0,
     \<lparr>files = [''config.yml'' \<mapsto> example_config_yaml, ''counts.yml'' \<mapsto> events_yaml_7],
      logged =
        [Printf (Some RowKind) ''INFO: Obtained value in database %s for table %s with count %d''
           [S ''events'', S ''events'', D 7],
         Printf None ''INFO: Pushed Cloudwatch metric for table %s with difference %d''
           [S ''events'', D (- 3)]],
      trace =
        [Queried RowKind
           ''SELECT relname,n_live_tup FROM pg_stat_user_tables WHERE relname IN ($1) AND schemaname = $2''
           [''events'', ''public''],
         Diffed ''events'',
         PutMetric \<lparr>MetricName = ''events'', Unit = ''Count'', Value = - 3,
                    DimensionName = ''DBInstanceIdentifier'', DimensionValue = ''events'',
                    Namespace = ''RowMetrics''\<rparr>,
         Created ''counts.yml'']\<rparr>)"
  by (simp add: run_defs events_run later_world_def example_env_simps example_values events_target_Name)

lemma no_credentials_main:
  "main no_credentials_env ''config.yml'' later_world =
    (Exited 0,
     \<lparr>files = [''config.yml'' \<mapsto> example_config_yaml, ''counts.yml'' \<mapsto> events_yaml_7],
      logged =
        [Printf (Some RowKind) ''INFO: Obtained value in database %s for table %s with count %d''
           [S ''events'', S ''events'', D 7],
         Printf None ''ERROR: Failed to push Cloudwatch metrics: %s'' [E (Error ''NoCredentialProviders'')]],
      trace =
        [Queried RowKind
           ''SELECT relname,n_live_tup FROM pg_stat_user_tables WHERE relname IN ($1) AND schemaname = $2''
           [''events'', ''public''],
         Diffed ''events'',
         Created ''counts.yml'']\<rparr>)"
  by (simp add: run_defs no_credentials_run events_run later_world_def no_credentials_env_simps example_values events_target_Name)


lemma metrics_target_Name: "Name metrics_target = ''metrics''"
  by (simp add: metrics_target_def)

lemma percent_env_simps:
  "sql_Open percent_env = (\<lambda>driver dsn. None)"
  "sqlx_In percent_env = example_In"
  "sqlx_Rebind percent_env = example_Rebind"
  "db_Query percent_env = percent_Query"
  "yaml_Marshal percent_env = example_Marshal"
  "yaml_Unmarshal percent_env = percent_Unmarshal"
  "yaml_Unmarshal_config percent_env = percent_Unmarshal_config"
  "fmt_Fprintf percent_env = example_Fprintf"
  "os_Create percent_env = (\<lambda>path. None)"
  "session_NewSession percent_env = (\<lambda>explicit. Some (Error ''NoCredentialProviders''))"
  "credentials_Get percent_env = (\<lambda>explicit. None)"
  "cw_PutMetricData percent_env = (\<lambda>datum. None)"
  by (simp_all add: percent_env_def)

lemma percent_run:
  "getCountCollection percent_env metrics_target w =
     ((\<lparr>Increment = Some [], Row = Some [(''disk%used'', 42)]\<rparr>, None),
      w\<lparr>logged := logged w @ [Printf (Some RowKind) ''INFO: Obtained value in database %s for table %s with count %d''
                   [S ''metrics'', S ''disk%used'', D 42]],
       trace := trace w @ [Queried RowKind
                  ''SELECT relname,n_live_tup FROM pg_stat_user_tables WHERE relname IN ($1) AND schemaname = $2''
                  [''disk%used'', ''public'']]\<rparr>)"
  by (simp add: collect_defs percent_Query_def percent_env_def metrics_target_def)

lemma percent_collect:
  "collectDatabases percent_env (Databases percent_config) [] w =
     (Inr [(''metrics'', \<lparr>Increment = Some [], Row = Some [(''disk%used'', 42)]\<rparr>)],
      w\<lparr>logged := logged w @ [Printf (Some RowKind) ''INFO: Obtained value in database %s for table %s with count %d''
                   [S ''metrics'', S ''disk%used'', D 42]],
       trace := trace w @ [Queried RowKind
                  ''SELECT relname,n_live_tup FROM pg_stat_user_tables WHERE relname IN ($1) AND schemaname = $2''
                  [''disk%used'', ''public'']]\<rparr>)"
  by (simp add: percent_config_def percent_run metrics_target_Name)

lemma percent_load_config:
  "loadApplicationConfig percent_env ''config.yml'' percent_first_world = Inr percent_config"
  "loadApplicationConfig percent_env ''config.yml'' percent_later_world = Inr percent_config"
  by (simp_all add: loadApplicationConfig_def percent_first_world_def percent_later_world_def
      percent_env_simps percent_Unmarshal_config_def)

lemma percent_marshal:
  "yaml_Marshal percent_env (Some [(''metrics'', \<lparr>Increment = Some [], Row = Some [(''disk%used'', 42)]\<rparr>)]) =
     Inr percent_yaml"
  by (simp add: percent_env_simps example_values)

lemma percent_Fprintf: "fmt_Fprintf percent_env percent_yaml = missing_yaml"
  by (simp add: percent_env_simps percent_yaml_def missing_yaml_def)

lemma percent_unmarshal:
  "yaml_Unmarshal percent_env missing_yaml = Inr missing_counts"
  "yaml_Unmarshal percent_env earlier_percent_yaml = Inr earlier_percent_counts"
  by (simp_all add: percent_env_simps percent_Unmarshal_def example_values earlier_percent_yaml_def)

lemma missing_not_percent:
  "missing_counts \<noteq> Some [(''metrics'', \<lparr>Increment = Some [], Row = Some [(''disk%used'', 42)]\<rparr>)]"
  by (simp add: missing_counts_def)

lemma example_unmarshal_7:
  "yaml_Unmarshal example_env events_yaml_7 =
     Inr (Some [(''events'', \<lparr>Increment = Some [], Row = Some [(''events'', 7)]\<rparr>)])"
  by (simp add: example_env_simps example_values)





section \<open>Properties of the difference\<close>

lemma map_of_rangeDifference:
  "distinct (map fst mins) \<Longrightarrow>
   map_of (rangeDifference mins sub acc) t =
     (case map_of mins t of
        None \<Rightarrow> map_of acc t
      | Some c \<Rightarrow> Some (case index_map sub t of Some p \<Rightarrow> c - p | None \<Rightarrow> 0))"
proof (induction mins arbitrary: acc)
  case Nil
  show ?case by simp
next
  case (Cons e mins)
  obtain k v where e: "e = (k, v)" by (cases e)
  from Cons.prems e have notin: "k \<notin> fst ` set mins" and d: "distinct (map fst mins)"
    by auto
  from notin have none: "map_of mins k = None"
    by (simp add: map_of_eq_None_iff)
  note IH = Cons.IH [OF d]
  show ?case
  proof (cases "k = t")
    case True
    with none show ?thesis
      by (simp add: e IH update_conv' split: option.splits)
  next
    case False
    then show ?thesis
      by (simp add: e IH update_conv' split: option.splits)
  qed
qed

lemma keys_rangeDifference:
  "fst ` set (rangeDifference mins sub acc) = fst ` set mins \<union> fst ` set acc"
proof (induction mins arbitrary: acc)
  case Nil
  show ?case by simp
next
  case (Cons e mins)
  obtain k v where e: "e = (k, v)" by (cases e)
  show ?case
    by (cases "index_map sub k") (auto simp: e Cons.IH dom_update)
qed

lemma index_map_Some: "index_map (Some entries) t = map_of entries t"
  by (simp add: index_map_def range_map_def)

lemma index_rangeDifference:
  "wf_map m \<Longrightarrow>
   index_map (Some (rangeDifference (range_map m) sub [])) t =
     (case index_map m t of
        None \<Rightarrow> None
      | Some c \<Rightarrow> Some (case index_map sub t of Some p \<Rightarrow> c - p | None \<Rightarrow> 0))"
proof -
  assume "wf_map m"
  then have "distinct (map fst (range_map m))"
    by (simp add: wf_map_def)
  then have "map_of (rangeDifference (range_map m) sub []) t =
     (case map_of (range_map m) t of
        None \<Rightarrow> map_of [] t
      | Some c \<Rightarrow> Some (case index_map sub t of Some p \<Rightarrow> c - p | None \<Rightarrow> 0))"
    by (rule map_of_rangeDifference)
  then show ?thesis
    by (simp add: index_map_Some index_map_def [of m] split: option.splits)
qed

lemma keys_difference:
  "keys_map (Some (rangeDifference (range_map m) sub [])) = keys_map m"
  by (simp add: keys_map_def range_map_def [of "Some _"] keys_rangeDifference)

lemma sint_minus_nonneg:
  fixes c p :: go_int
  assumes "0 \<le> sint c" and "0 \<le> sint p"
  shows "sint (c - p) = sint c - sint p"
proof -
  have c: "sint c < 2 ^ 63" and p: "sint p < 2 ^ 63"
    using sint_lt [of c] sint_lt [of p] by simp_all
  have "sint (c - p) = signed_take_bit 63 (sint c - sint p)"
    by (simp add: sint_word_ariths)
  also have "\<dots> = sint c - sint p"
    using assms c p by (intro signed_take_bit_int_eq_self) simp_all
  finally show ?thesis .
qed

lemma keys_getCountCollectionDifference:
  "keys_map (Increment (getCountCollectionDifference cur prev)) = keys_map (Increment cur)"
  "keys_map (Row (getCountCollectionDifference cur prev)) = keys_map (Row cur)"
  by (simp_all add: getCountCollectionDifference_def keys_difference)

lemma index_getCountCollectionDifference:
  "wf_map (Increment cur) \<Longrightarrow>
   index_map (Increment (getCountCollectionDifference cur prev)) t =
     (case index_map (Increment cur) t of
        None \<Rightarrow> None
      | Some c \<Rightarrow> Some (case index_map (Increment prev) t of Some p \<Rightarrow> c - p | None \<Rightarrow> 0))"
  "wf_map (Row cur) \<Longrightarrow>
   index_map (Row (getCountCollectionDifference cur prev)) t =
     (case index_map (Row cur) t of
        None \<Rightarrow> None
      | Some c \<Rightarrow> Some (case index_map (Row prev) t of Some p \<Rightarrow> c - p | None \<Rightarrow> 0))"
  by (simp_all add: getCountCollectionDifference_def index_rangeDifference)

text \<open>
  Claim C1 (delta correctness). For snapshots \<open>current\<close> and \<open>previous\<close> and a table present
  in both increment maps (and, independently, in both row maps), the difference maps the
  table to the current value minus the previous value in Go's integer arithmetic, with no
  clamping. For the non-negative counts a snapshot holds, the subtraction cannot wrap, so
  the value read as an integer is exactly the integer difference, negative when the count
  went down.
\<close>

theorem delta_correctness:
  assumes "wf_map (Increment current)" and "wf_map (Row current)"
  shows "(\<forall>t c p. index_map (Increment current) t = Some c \<longrightarrow>
            index_map (Increment previous) t = Some p \<longrightarrow>
            index_map (Increment (getCountCollectionDifference current previous)) t = Some (c - p) \<and>
            (0 \<le> sint c \<longrightarrow> 0 \<le> sint p \<longrightarrow> sint (c - p) = sint c - sint p)) \<and>
         (\<forall>t c p. index_map (Row current) t = Some c \<longrightarrow>
            index_map (Row previous) t = Some p \<longrightarrow>
            index_map (Row (getCountCollectionDifference current previous)) t = Some (c - p) \<and>
            (0 \<le> sint c \<longrightarrow> 0 \<le> sint p \<longrightarrow> sint (c - p) = sint c - sint p))"
  using assms by (simp add: index_getCountCollectionDifference sint_minus_nonneg)

theorem delta_correctness_witness:
  "wf_map (Increment \<lparr>Increment = Some [(''orders'', 150)], Row = Some [(''events'', 7)]\<rparr>) \<and>
   wf_map (Row \<lparr>Increment = Some [(''orders'', 150)], Row = Some [(''events'', 7)]\<rparr>) \<and>
   index_map (Increment (getCountCollectionDifference
       \<lparr>Increment = Some [(''orders'', 150)], Row = Some [(''events'', 7)]\<rparr>
       \<lparr>Increment = Some [(''orders'', 100)], Row = Some [(''events'', 10)]\<rparr>)) ''orders'' = Some 50 \<and>
   index_map (Row (getCountCollectionDifference
       \<lparr>Increment = Some [(''orders'', 150)], Row = Some [(''events'', 7)]\<rparr>
       \<lparr>Increment = Some [(''orders'', 100)], Row = Some [(''events'', 10)]\<rparr>)) ''events'' = Some (- 3) \<and>
   sint (7 - 10 :: go_int) = - 3"
proof -
  let ?cur = "\<lparr>Increment = Some [(''orders'', 150 :: go_int)], Row = Some [(''events'', 7 :: go_int)]\<rparr>"
  let ?prev = "\<lparr>Increment = Some [(''orders'', 100 :: go_int)], Row = Some [(''events'', 10 :: go_int)]\<rparr>"
  have wf: "wf_map (Increment ?cur)" "wf_map (Row ?cur)"
    by (simp_all add: wf_map_def range_map_def)
  have cur: "index_map (Increment ?cur) ''orders'' = Some 150" "index_map (Row ?cur) ''events'' = Some 7"
    by (simp_all add: index_map_Some)
  have prev: "index_map (Increment ?prev) ''orders'' = Some 100" "index_map (Row ?prev) ''events'' = Some 10"
    by (simp_all add: index_map_Some)
  have nonneg: "0 \<le> sint (7 :: go_int)" "0 \<le> sint (10 :: go_int)"
    by simp_all
  from delta_correctness [OF wf, of ?prev] cur prev nonneg
  have "index_map (Increment (getCountCollectionDifference ?cur ?prev)) ''orders'' = Some (150 - 100)"
    and "index_map (Row (getCountCollectionDifference ?cur ?prev)) ''events'' = Some (7 - 10)"
    and "sint (7 - 10 :: go_int) = sint (7 :: go_int) - sint (10 :: go_int)"
    by blast+
  with wf show ?thesis by simp
qed

text \<open>
  Claim C2 (new-key baseline). A table present in the current increment map but absent from
  the previous one is mapped to exactly 0 by the difference; the same holds, independently,
  for the row maps.
\<close>

theorem new_key_baseline:
  assumes "wf_map (Increment current)" and "wf_map (Row current)"
  shows "(\<forall>t c. index_map (Increment current) t = Some c \<longrightarrow>
            index_map (Increment previous) t = None \<longrightarrow>
            index_map (Increment (getCountCollectionDifference current previous)) t = Some 0) \<and>
         (\<forall>t c. index_map (Row current) t = Some c \<longrightarrow>
            index_map (Row previous) t = None \<longrightarrow>
            index_map (Row (getCountCollectionDifference current previous)) t = Some 0)"
  using assms by (simp add: index_getCountCollectionDifference)

theorem new_key_baseline_witness:
  "index_map (Increment \<lparr>Increment = Some [(''orders'', 150)], Row = Some [(''events'', 7)]\<rparr>) ''orders'' = Some 150 \<and>
   index_map (Increment \<lparr>Increment = None, Row = Some []\<rparr>) ''orders'' = None \<and>
   index_map (Increment (getCountCollectionDifference
       \<lparr>Increment = Some [(''orders'', 150)], Row = Some [(''events'', 7)]\<rparr>
       \<lparr>Increment = None, Row = Some []\<rparr>)) ''orders'' = Some 0 \<and>
   index_map (Row (getCountCollectionDifference
       \<lparr>Increment = Some [(''orders'', 150)], Row = Some [(''events'', 7)]\<rparr>
       \<lparr>Increment = None, Row = Some []\<rparr>)) ''events'' = Some 0"
proof -
  let ?cur = "\<lparr>Increment = Some [(''orders'', 150 :: go_int)], Row = Some [(''events'', 7 :: go_int)]\<rparr>"
  let ?prev = "\<lparr>Increment = None :: go_int go_map, Row = Some [] :: go_int go_map\<rparr>"
  have wf: "wf_map (Increment ?cur)" "wf_map (Row ?cur)"
    by (simp_all add: wf_map_def range_map_def)
  have cur: "index_map (Increment ?cur) ''orders'' = Some 150" "index_map (Row ?cur) ''events'' = Some 7"
    by (simp_all add: index_map_Some)
  have prev: "index_map (Increment ?prev) ''orders'' = None" "index_map (Row ?prev) ''events'' = None"
    by (simp_all add: index_map_def range_map_def)
  from new_key_baseline [OF wf, of ?prev] cur prev
  have "index_map (Increment (getCountCollectionDifference ?cur ?prev)) ''orders'' = Some 0"
    and "index_map (Row (getCountCollectionDifference ?cur ?prev)) ''events'' = Some 0"
    by blast+
  with cur prev show ?thesis by simp
qed

text \<open>
  Claim C3 (no silent drops). Every key of the current snapshot's increment map is a key of
  the difference's increment map, and every key of its row map is a key of the difference's
  row map.
\<close>

theorem no_silent_drops:
  "keys_map (Increment current) \<subseteq> keys_map (Increment (getCountCollectionDifference current previous)) \<and>
   keys_map (Row current) \<subseteq> keys_map (Row (getCountCollectionDifference current previous))"
  by (simp add: keys_getCountCollectionDifference)

text \<open>
  Claim C9 (no extra keys). The difference has exactly the key sets of the current snapshot:
  a table that only the previous snapshot holds is not a key of the difference.
\<close>

theorem difference_keys_exact:
  "keys_map (Increment (getCountCollectionDifference current previous)) = keys_map (Increment current) \<and>
   keys_map (Row (getCountCollectionDifference current previous)) = keys_map (Row current) \<and>
   (\<forall>t. t \<in> keys_map (Increment previous) \<longrightarrow> t \<notin> keys_map (Increment current) \<longrightarrow>
      t \<notin> keys_map (Increment (getCountCollectionDifference current previous))) \<and>
   (\<forall>t. t \<in> keys_map (Row previous) \<longrightarrow> t \<notin> keys_map (Row current) \<longrightarrow>
      t \<notin> keys_map (Row (getCountCollectionDifference current previous)))"
  by (simp add: keys_getCountCollectionDifference)

theorem difference_keys_exact_witness:
  "''dropped'' \<in> keys_map (Increment \<lparr>Increment = Some [(''dropped'', 4)], Row = Some [(''gone'', 9)]\<rparr>) \<and>
   ''gone'' \<in> keys_map (Row \<lparr>Increment = Some [(''dropped'', 4)], Row = Some [(''gone'', 9)]\<rparr>) \<and>
   ''dropped'' \<notin> keys_map (Increment \<lparr>Increment = Some [(''orders'', 150)], Row = Some [(''events'', 7)]\<rparr>) \<and>
   ''gone'' \<notin> keys_map (Row \<lparr>Increment = Some [(''orders'', 150)], Row = Some [(''events'', 7)]\<rparr>) \<and>
   ''dropped'' \<notin> keys_map (Increment (getCountCollectionDifference
       \<lparr>Increment = Some [(''orders'', 150)], Row = Some [(''events'', 7)]\<rparr>
       \<lparr>Increment = Some [(''dropped'', 4)], Row = Some [(''gone'', 9)]\<rparr>)) \<and>
   ''gone'' \<notin> keys_map (Row (getCountCollectionDifference
       \<lparr>Increment = Some [(''orders'', 150)], Row = Some [(''events'', 7)]\<rparr>
       \<lparr>Increment = Some [(''dropped'', 4)], Row = Some [(''gone'', 9)]\<rparr>))"
proof -
  let ?cur = "\<lparr>Increment = Some [(''orders'', 150 :: go_int)], Row = Some [(''events'', 7 :: go_int)]\<rparr>"
  let ?prev = "\<lparr>Increment = Some [(''dropped'', 4 :: go_int)], Row = Some [(''gone'', 9 :: go_int)]\<rparr>"
  have prev: "''dropped'' \<in> keys_map (Increment ?prev)" "''gone'' \<in> keys_map (Row ?prev)"
    by (simp_all add: keys_map_def range_map_def)
  have cur: "''dropped'' \<notin> keys_map (Increment ?cur)" "''gone'' \<notin> keys_map (Row ?cur)"
    by (simp_all add: keys_map_def range_map_def)
  from difference_keys_exact [of ?cur ?prev] prev cur
  have "''dropped'' \<notin> keys_map (Increment (getCountCollectionDifference ?cur ?prev))"
    and "''gone'' \<notin> keys_map (Row (getCountCollectionDifference ?cur ?prev))"
    by blast+
  with prev cur show ?thesis by simp
qed

section \<open>Properties of the collection\<close>

lemma grows_refl: "grows field P w w"
  by (simp add: grows_def)

lemma grows_trans: "grows field P w w1 \<Longrightarrow> grows field P w1 w2 \<Longrightarrow> grows field P w w2"
  by (auto simp: grows_def)

lemma grows_mono: "(\<And>x. P x \<Longrightarrow> P' x) \<Longrightarrow> grows field P w w' \<Longrightarrow> grows field P' w w'"
  by (auto simp: grows_def list_all_iff)

lemma grows_logged_new: "grows logged P w w' \<Longrightarrow> list_all P (new_logged w w')"
  by (auto simp: grows_def new_logged_def)

lemma grows_trace_new: "grows trace P w w' \<Longrightarrow> list_all P (new_trace w w')"
  by (auto simp: grows_def new_trace_def)

lemma logPrintf_simps:
  "logged (logPrintf k format operands w) = logged w @ [Printf k format operands]"
  "trace (logPrintf k format operands w) = trace w"
  "files (logPrintf k format operands w) = files w"
  by (simp_all add: logPrintf_def)

lemma record_event_simps:
  "logged (record_event e w) = logged w"
  "trace (record_event e w) = trace w @ [e]"
  "files (record_event e w) = files w"
  by (simp_all add: record_event_def)

lemma grows_logPrintf:
  "P (Printf k format operands) \<Longrightarrow> grows logged P w (logPrintf k format operands w)"
  "grows trace Q w (logPrintf k format operands w)"
  by (simp_all add: grows_def logPrintf_simps)

lemma grows_record_event:
  "grows logged P w (record_event e w)"
  "Q e \<Longrightarrow> grows trace Q w (record_event e w)"
  by (simp_all add: grows_def record_event_simps)

lemma assembleQuery_grows:
  assumes "take 5 failure \<noteq> ''WARN:''"
  shows "grows logged (collect_line kind) w (snd (assembleQuery en kind rebind query failure tables dbSchema w))"
    and "trace (snd (assembleQuery en kind rebind query failure tables dbSchema w)) = trace w"
    and "files (snd (assembleQuery en kind rebind query failure tables dbSchema w)) = files w"
  using assms
  by (auto simp: assembleQuery_def grows_refl grows_logPrintf collect_line_def logPrintf_simps
      split: prod.splits option.splits)

lemma assembleQuery_empty:
  "assembleQuery en kind rebind query failure [] dbSchema w = (([], []), w)"
  by (simp add: assembleQuery_def)

lemma collect_line_Printf:
  "take 5 format \<noteq> ''WARN:'' \<Longrightarrow> collect_line kind (Printf (Some kind) format operands)"
  by (simp add: collect_line_def)

lemma grows_logPrintf_acc:
  "grows logged P w0 w \<Longrightarrow> P (Printf k format operands) \<Longrightarrow> grows logged P w0 (logPrintf k format operands w)"
  by (rule grows_trans [OF _ grows_logPrintf(1)])

lemma scanRows_logged:
  "grows logged (collect_line kind) w0 w \<Longrightarrow>
   grows logged (collect_line kind) w0 (snd (scanRows kind name rows counts w))"
proof (induction rows arbitrary: counts w)
  case Nil
  then show ?case by simp
next
  case (Cons r rows)
  obtain scanned rowsErr where r: "r = (scanned, rowsErr)" by (cases r)
  show ?case
    unfolding r
    by (cases scanned; cases rowsErr)
      (simp_all add: Cons.IH Cons.prems grows_logPrintf_acc collect_line_Printf)
qed

lemma scanRows_trace:
  "trace (snd (scanRows kind name rows counts w)) = trace w"
proof (induction rows arbitrary: counts w)
  case Nil
  show ?case by simp
next
  case (Cons r rows)
  obtain scanned rowsErr where r: "r = (scanned, rowsErr)" by (cases r)
  show ?case
    unfolding r
    by (cases scanned; cases rowsErr) (simp_all add: Cons.IH logPrintf_simps)
qed

lemma scanRows_files:
  "files (snd (scanRows kind name rows counts w)) = files w"
proof (induction rows arbitrary: counts w)
  case Nil
  show ?case by simp
next
  case (Cons r rows)
  obtain scanned rowsErr where r: "r = (scanned, rowsErr)" by (cases r)
  show ?case
    unfolding r
    by (cases scanned; cases rowsErr) (simp_all add: Cons.IH logPrintf_simps)
qed

lemma runQuery_logged:
  "grows logged (collect_line kind) w (snd (runQuery en kind dbConfig q w))"
  by (auto simp: runQuery_def grows_refl collect_line_Printf
      intro!: scanRows_logged grows_logPrintf_acc grows_record_event(1)
      split: prod.splits sum.splits)

lemma runQuery_trace:
  "grows trace (is_query_of kind) w (snd (runQuery en kind dbConfig q w))"
  by (auto simp: runQuery_def grows_refl grows_def scanRows_trace logPrintf_simps record_event_simps
      split: prod.splits sum.splits)

lemma runQuery_files:
  "files (snd (runQuery en kind dbConfig q w)) = files w"
  by (auto simp: runQuery_def scanRows_files logPrintf_simps record_event_simps
      split: prod.splits sum.splits)

lemma runQuery_empty:
  "runQuery en kind dbConfig ([], []) w = ([], w)"
  by (simp add: runQuery_def)

lemma assembleQueries_shape:
  "\<exists>rebind qi qr fi fr.
     take 5 fi \<noteq> ''WARN:'' \<and> take 5 fr \<noteq> ''WARN:'' \<and>
     assembleQueries en dbConfig w =
       ((fst (assembleQuery en IncrementKind rebind qi fi (IncrementTables (Tables dbConfig)) (dbSchema_of dbConfig) w),
         fst (assembleQuery en RowKind rebind qr fr (RowTables (Tables dbConfig)) (dbSchema_of dbConfig)
                (snd (assembleQuery en IncrementKind rebind qi fi (IncrementTables (Tables dbConfig)) (dbSchema_of dbConfig) w)))),
        snd (assembleQuery en RowKind rebind qr fr (RowTables (Tables dbConfig)) (dbSchema_of dbConfig)
               (snd (assembleQuery en IncrementKind rebind qi fi (IncrementTables (Tables dbConfig)) (dbSchema_of dbConfig) w))))"
proof (cases "Type dbConfig = ''mysql''")
  case True
  show ?thesis
    apply (rule exI [of _ False])
    apply (rule exI [of _ mysqlIncrementQuery])
    apply (rule exI [of _ mysqlRowQuery])
    apply (rule exI [of _ "''ERROR: Failed to assemble increment query interface: %s''"])
    apply (rule exI [of _ "''ERROR: Failed to assemble row query interface: %s''"])
    apply (simp add: assembleQueries_def True split: prod.splits)
    done
next
  case False
  note notmysql = this
  show ?thesis
  proof (cases "Type dbConfig = ''postgres''")
    case True
    show ?thesis
      apply (rule exI [of _ True])
      apply (rule exI [of _ postgresIncrementQuery])
      apply (rule exI [of _ postgresRowQuery])
      apply (rule exI [of _ "''ERROR: Failed to assemble increment query interface: %s''"])
      apply (rule exI [of _ "''ERROR: Failed to assemble row query interface: %s''"])
      apply (simp add: assembleQueries_def True split: prod.splits)
      done
  next
    case False
    show ?thesis
      apply (rule exI [of _ False])
      apply (rule exI [of _ defaultIncrementQuery])
      apply (rule exI [of _ defaultRowQuery])
      apply (rule exI [of _ "''ERROR: Failed to assemble increment query interface: %s''"])
      apply (rule exI [of _ "''ERROR: Failed to assemble row query interface: %s''"])
      apply (simp add: assembleQueries_def False notmysql split: prod.splits)
      done
  qed
qed

lemma not_WARN_collect_line: "collect_line kind l \<Longrightarrow> \<not> is_WARN l"
  by (simp add: collect_line_def)

lemma assembleQueries_logged:
  "grows logged (\<lambda>l. \<not> is_WARN l) w (snd (assembleQueries en dbConfig w))"
proof -
  from assembleQueries_shape [of en dbConfig w]
  obtain rebind qi qr fi fr where f: "take 5 fi \<noteq> ''WARN:''" "take 5 fr \<noteq> ''WARN:''"
    and eq: "snd (assembleQueries en dbConfig w) =
        snd (assembleQuery en RowKind rebind qr fr (RowTables (Tables dbConfig)) (dbSchema_of dbConfig)
               (snd (assembleQuery en IncrementKind rebind qi fi (IncrementTables (Tables dbConfig)) (dbSchema_of dbConfig) w)))"
    by auto
  show ?thesis
    unfolding eq
    by (rule grows_trans)
      (rule grows_mono [OF not_WARN_collect_line assembleQuery_grows(1)], simp, rule f)+
qed

lemma assembleQueries_trace: "trace (snd (assembleQueries en dbConfig w)) = trace w"
  using assembleQueries_shape [of en dbConfig w]
  by (auto simp: assembleQuery_grows(2))

lemma assembleQueries_files: "files (snd (assembleQueries en dbConfig w)) = files w"
  using assembleQueries_shape [of en dbConfig w]
  by (auto simp: assembleQuery_grows(3))

lemma assembleQueries_no_increment:
  assumes "IncrementTables (Tables dbConfig) = []"
  shows "fst (fst (assembleQueries en dbConfig w)) = ([], [])"
    and "grows logged (collect_line RowKind) w (snd (assembleQueries en dbConfig w))"
  using assembleQueries_shape [of en dbConfig w] assms
  by (auto simp: assembleQuery_empty assembleQuery_grows(1))

lemma assembleQueries_no_row:
  assumes "RowTables (Tables dbConfig) = []"
  shows "snd (fst (assembleQueries en dbConfig w)) = ([], [])"
    and "grows logged (collect_line IncrementKind) w (snd (assembleQueries en dbConfig w))"
  using assembleQueries_shape [of en dbConfig w] assms
  by (auto simp: assembleQuery_empty assembleQuery_grows(1))

lemma getCountCollection_opened:
  "sql_Open en (dbType_of dbConfig) (dsn_of dbConfig) = None \<Longrightarrow>
   getCountCollection en dbConfig w =
     ((\<lparr>Increment = Some (fst (runQuery en IncrementKind dbConfig (fst (fst (assembleQueries en dbConfig w)))
                                 (snd (assembleQueries en dbConfig w)))),
        Row = Some (fst (runQuery en RowKind dbConfig (snd (fst (assembleQueries en dbConfig w)))
                           (snd (runQuery en IncrementKind dbConfig (fst (fst (assembleQueries en dbConfig w)))
                                   (snd (assembleQueries en dbConfig w))))))\<rparr>, None),
      snd (runQuery en RowKind dbConfig (snd (fst (assembleQueries en dbConfig w)))
             (snd (runQuery en IncrementKind dbConfig (fst (fst (assembleQueries en dbConfig w)))
                     (snd (assembleQueries en dbConfig w))))))"
  by (simp add: getCountCollection_def split: prod.splits)

lemma getCountCollection_not_opened:
  "sql_Open en (dbType_of dbConfig) (dsn_of dbConfig) = Some err \<Longrightarrow>
   getCountCollection en dbConfig w = ((\<lparr>Increment = Some [], Row = Some []\<rparr>, Some err), w)"
  by (simp add: getCountCollection_def make_map_def)

lemma getCountCollection_error:
  "snd (fst (getCountCollection en dbConfig w)) = sql_Open en (dbType_of dbConfig) (dsn_of dbConfig)"
  by (cases "sql_Open en (dbType_of dbConfig) (dsn_of dbConfig)")
    (simp_all add: getCountCollection_opened getCountCollection_not_opened)

lemma getCountCollection_files:
  "files (snd (getCountCollection en dbConfig w)) = files w"
  by (cases "sql_Open en (dbType_of dbConfig) (dsn_of dbConfig)")
    (simp_all add: getCountCollection_opened getCountCollection_not_opened runQuery_files assembleQueries_files)

lemma getCountCollection_no_WARN:
  "grows logged (\<lambda>l. \<not> is_WARN l) w (snd (getCountCollection en dbConfig w))"
proof (cases "sql_Open en (dbType_of dbConfig) (dsn_of dbConfig)")
  case None
  show ?thesis
    unfolding getCountCollection_opened [OF None] snd_conv
    by (rule grows_trans [OF assembleQueries_logged grows_trans])
      (rule grows_mono [OF not_WARN_collect_line runQuery_logged], assumption)+
next
  case (Some err)
  then show ?thesis
    by (simp add: getCountCollection_not_opened grows_refl)
qed

lemma getCountCollection_no_increment:
  assumes "IncrementTables (Tables dbConfig) = []"
  shows "grows logged (collect_line RowKind) w (snd (getCountCollection en dbConfig w))"
    and "grows trace (is_query_of RowKind) w (snd (getCountCollection en dbConfig w))"
    and "Increment (fst (fst (getCountCollection en dbConfig w))) = Some []"
proof -
  note a = assembleQueries_no_increment [OF assms, where en = en and w = w]
  show "grows logged (collect_line RowKind) w (snd (getCountCollection en dbConfig w))"
  proof (cases "sql_Open en (dbType_of dbConfig) (dsn_of dbConfig)")
    case None
    show ?thesis
      unfolding getCountCollection_opened [OF None] snd_conv a(1) runQuery_empty
      by (rule grows_trans [OF a(2) runQuery_logged])
  next
    case (Some err)
    then show ?thesis
      by (simp add: getCountCollection_not_opened grows_refl)
  qed
  show "grows trace (is_query_of RowKind) w (snd (getCountCollection en dbConfig w))"
  proof (cases "sql_Open en (dbType_of dbConfig) (dsn_of dbConfig)")
    case None
    have "grows trace (is_query_of RowKind) w (snd (assembleQueries en dbConfig w))"
      by (simp add: grows_def assembleQueries_trace)
    then show ?thesis
      unfolding getCountCollection_opened [OF None] snd_conv a(1) runQuery_empty
      by (rule grows_trans [OF _ runQuery_trace])
  next
    case (Some err)
    then show ?thesis
      by (simp add: getCountCollection_not_opened grows_refl)
  qed
  show "Increment (fst (fst (getCountCollection en dbConfig w))) = Some []"
    by (cases "sql_Open en (dbType_of dbConfig) (dsn_of dbConfig)")
      (simp_all add: getCountCollection_opened getCountCollection_not_opened a(1) runQuery_empty)
qed

lemma getCountCollection_no_row:
  assumes "RowTables (Tables dbConfig) = []"
  shows "grows logged (collect_line IncrementKind) w (snd (getCountCollection en dbConfig w))"
    and "grows trace (is_query_of IncrementKind) w (snd (getCountCollection en dbConfig w))"
    and "Row (fst (fst (getCountCollection en dbConfig w))) = Some []"
proof -
  note a = assembleQueries_no_row [OF assms, where en = en and w = w]
  show "grows logged (collect_line IncrementKind) w (snd (getCountCollection en dbConfig w))"
  proof (cases "sql_Open en (dbType_of dbConfig) (dsn_of dbConfig)")
    case None
    show ?thesis
      unfolding getCountCollection_opened [OF None] snd_conv a(1) runQuery_empty
      by (rule grows_trans [OF a(2) runQuery_logged])
  next
    case (Some err)
    then show ?thesis
      by (simp add: getCountCollection_not_opened grows_refl)
  qed
  show "grows trace (is_query_of IncrementKind) w (snd (getCountCollection en dbConfig w))"
  proof (cases "sql_Open en (dbType_of dbConfig) (dsn_of dbConfig)")
    case None
    have "grows trace (is_query_of IncrementKind) w (snd (assembleQueries en dbConfig w))"
      by (simp add: grows_def assembleQueries_trace)
    then show ?thesis
      unfolding getCountCollection_opened [OF None] snd_conv a(1) runQuery_empty
      by (rule grows_trans [OF _ runQuery_trace])
  next
    case (Some err)
    then show ?thesis
      by (simp add: getCountCollection_not_opened grows_refl)
  qed
  show "Row (fst (fst (getCountCollection en dbConfig w))) = Some []"
    by (cases "sql_Open en (dbType_of dbConfig) (dsn_of dbConfig)")
      (simp_all add: getCountCollection_opened getCountCollection_not_opened a(1) runQuery_empty)
qed

lemma filter_empty_new_logged:
  "grows logged P w w' \<Longrightarrow> (\<And>l. P l \<Longrightarrow> \<not> Q l) \<Longrightarrow> filter Q (new_logged w w') = []"
  by (auto simp: grows_def new_logged_def filter_empty_conv list_all_iff)

lemma filter_empty_new_trace:
  "grows trace P w w' \<Longrightarrow> (\<And>e. P e \<Longrightarrow> \<not> Q e) \<Longrightarrow> filter Q (new_trace w w') = []"
  by (auto simp: grows_def new_trace_def filter_empty_conv list_all_iff)

lemma is_query_of_other: "is_query_of kind e \<Longrightarrow> kind' \<noteq> kind \<Longrightarrow> \<not> is_query_of kind' e"
  by (cases e) auto

text \<open>
  Claim C8 (an empty table set suppresses its query). When the increment table set of a
  target is empty, \<^verbatim>\<open>getCountCollection\<close> makes no \<^verbatim>\<open>db.Query\<close> call for the increment
  counters, logs nothing from the increment half of the code (so no error of that kind),
  and returns an empty increment map; the same holds, independently, for the row table
  set. The error returned is that of \<^verbatim>\<open>sql.Open\<close> whatever the table sets are.
\<close>

theorem empty_table_set_suppresses_query:
  "(IncrementTables (Tables dbConfig) = [] \<longrightarrow>
      filter (is_query_of IncrementKind) (new_trace w (snd (getCountCollection en dbConfig w))) = [] \<and>
      filter (\<lambda>l. site l = Some IncrementKind) (new_logged w (snd (getCountCollection en dbConfig w))) = [] \<and>
      Increment (fst (fst (getCountCollection en dbConfig w))) = Some []) \<and>
   (RowTables (Tables dbConfig) = [] \<longrightarrow>
      filter (is_query_of RowKind) (new_trace w (snd (getCountCollection en dbConfig w))) = [] \<and>
      filter (\<lambda>l. site l = Some RowKind) (new_logged w (snd (getCountCollection en dbConfig w))) = [] \<and>
      Row (fst (fst (getCountCollection en dbConfig w))) = Some []) \<and>
   snd (fst (getCountCollection en dbConfig w)) = sql_Open en (dbType_of dbConfig) (dsn_of dbConfig)"
proof (intro conjI impI)
  assume e: "IncrementTables (Tables dbConfig) = []"
  show "filter (is_query_of IncrementKind) (new_trace w (snd (getCountCollection en dbConfig w))) = []"
    by (rule filter_empty_new_trace [OF getCountCollection_no_increment(2) [OF e]])
      (simp add: is_query_of_other)
  show "filter (\<lambda>l. site l = Some IncrementKind) (new_logged w (snd (getCountCollection en dbConfig w))) = []"
    by (rule filter_empty_new_logged [OF getCountCollection_no_increment(1) [OF e]])
      (simp add: collect_line_def)
  show "Increment (fst (fst (getCountCollection en dbConfig w))) = Some []"
    by (rule getCountCollection_no_increment(3) [OF e])
next
  assume e: "RowTables (Tables dbConfig) = []"
  show "filter (is_query_of RowKind) (new_trace w (snd (getCountCollection en dbConfig w))) = []"
    by (rule filter_empty_new_trace [OF getCountCollection_no_row(2) [OF e]])
      (simp add: is_query_of_other)
  show "filter (\<lambda>l. site l = Some RowKind) (new_logged w (snd (getCountCollection en dbConfig w))) = []"
    by (rule filter_empty_new_logged [OF getCountCollection_no_row(1) [OF e]])
      (simp add: collect_line_def)
  show "Row (fst (fst (getCountCollection en dbConfig w))) = Some []"
    by (rule getCountCollection_no_row(3) [OF e])
next
  show "snd (fst (getCountCollection en dbConfig w)) = sql_Open en (dbType_of dbConfig) (dsn_of dbConfig)"
    by (rule getCountCollection_error)
qed

theorem empty_table_set_suppresses_query_witness:
  "IncrementTables (Tables events_target) = [] \<and>
   RowTables (Tables orders_target) = [] \<and>
   new_trace empty_world (snd (getCountCollection example_env events_target empty_world)) =
     [Queried RowKind
        ''SELECT relname,n_live_tup FROM pg_stat_user_tables WHERE relname IN ($1) AND schemaname = $2''
        [''events'', ''public'']] \<and>
   filter (is_query_of IncrementKind)
     (new_trace empty_world (snd (getCountCollection example_env events_target empty_world))) = [] \<and>
   filter (\<lambda>l. site l = Some IncrementKind)
     (new_logged empty_world (snd (getCountCollection example_env events_target empty_world))) = [] \<and>
   fst (getCountCollection example_env events_target empty_world) =
     (\<lparr>Increment = Some [], Row = Some [(''events'', 7)]\<rparr>, None) \<and>
   new_trace empty_world (snd (getCountCollection example_env orders_target empty_world)) =
     [Queried IncrementKind
        ''SELECT `TABLE_NAME`, `AUTO_INCREMENT` FROM information_schema.TABLES WHERE TABLE_NAME IN (?) AND TABLE_SCHEMA = ?''
        [''orders'', ''shop'']] \<and>
   filter (is_query_of RowKind)
     (new_trace empty_world (snd (getCountCollection example_env orders_target empty_world))) = [] \<and>
   filter (\<lambda>l. site l = Some RowKind)
     (new_logged empty_world (snd (getCountCollection example_env orders_target empty_world))) = [] \<and>
   fst (getCountCollection example_env orders_target empty_world) =
     (\<lparr>Increment = Some [(''orders'', 150)], Row = Some []\<rparr>, None)"
proof -
  have e: "IncrementTables (Tables events_target) = []"
    by (simp add: events_target_def)
  have o: "RowTables (Tables orders_target) = []"
    by (simp add: orders_target_def)
  have runs:
    "new_trace empty_world (snd (getCountCollection example_env events_target empty_world)) =
       [Queried RowKind
          ''SELECT relname,n_live_tup FROM pg_stat_user_tables WHERE relname IN ($1) AND schemaname = $2''
          [''events'', ''public'']]"
    "fst (getCountCollection example_env events_target empty_world) =
       (\<lparr>Increment = Some [], Row = Some [(''events'', 7)]\<rparr>, None)"
    "new_trace empty_world (snd (getCountCollection example_env orders_target empty_world)) =
       [Queried IncrementKind
          ''SELECT `TABLE_NAME`, `AUTO_INCREMENT` FROM information_schema.TABLES WHERE TABLE_NAME IN (?) AND TABLE_SCHEMA = ?''
          [''orders'', ''shop'']]"
    "fst (getCountCollection example_env orders_target empty_world) =
       (\<lparr>Increment = Some [(''orders'', 150)], Row = Some []\<rparr>, None)"
    by (simp_all add: events_run orders_run new_trace_def empty_world_def)
  from empty_table_set_suppresses_query [of events_target empty_world example_env]
    empty_table_set_suppresses_query [of orders_target empty_world example_env] e o
  have "filter (is_query_of IncrementKind)
       (new_trace empty_world (snd (getCountCollection example_env events_target empty_world))) = []"
    and "filter (\<lambda>l. site l = Some IncrementKind)
       (new_logged empty_world (snd (getCountCollection example_env events_target empty_world))) = []"
    and "filter (is_query_of RowKind)
       (new_trace empty_world (snd (getCountCollection example_env orders_target empty_world))) = []"
    and "filter (\<lambda>l. site l = Some RowKind)
       (new_logged empty_world (snd (getCountCollection example_env orders_target empty_world))) = []"
    by blast+
  with e o runs show ?thesis by simp
qed

section \<open>The PostgreSQL queries\<close>

lemma assembleQuery_nonempty:
  "tables \<noteq> [] \<Longrightarrow>
   fst (assembleQuery en kind rebind query failure tables dbSchema w) =
     (if rebind then sqlx_Rebind en (fst (sqlx_In en query tables dbSchema))
      else fst (sqlx_In en query tables dbSchema),
      fst (snd (sqlx_In en query tables dbSchema)))"
  by (simp add: assembleQuery_def split: prod.splits)

lemma assembleQueries_postgres:
  "Type dbConfig = ''postgres'' \<Longrightarrow>
   fst (assembleQueries en dbConfig w) =
     (fst (assembleQuery en IncrementKind True postgresIncrementQuery
             ''ERROR: Failed to assemble increment query interface: %s''
             (IncrementTables (Tables dbConfig)) (dbSchema_of dbConfig) w),
      fst (assembleQuery en RowKind True postgresRowQuery
             ''ERROR: Failed to assemble row query interface: %s''
             (RowTables (Tables dbConfig)) (dbSchema_of dbConfig)
             (snd (assembleQuery en IncrementKind True postgresIncrementQuery
                     ''ERROR: Failed to assemble increment query interface: %s''
                     (IncrementTables (Tables dbConfig)) (dbSchema_of dbConfig) w))))"
  by (simp add: assembleQueries_def split: prod.splits)

text \<open>
  Claim C4 (PostgreSQL fallback). For a PostgreSQL target with non-empty increment and row
  table sets, the increment query and the row query are assembled from one and the same
  text, that of the statistics view, with the target's tables and schema, and both are
  rebound. No line of severity WARN is logged while the queries are assembled, nor
  anywhere else in \<^verbatim>\<open>getCountCollection\<close>: the warning that the repository's
  documentation announces for this case is not issued.
\<close>

theorem postgres_same_query_no_warning:
  assumes "Type dbConfig = ''postgres''"
    and "IncrementTables (Tables dbConfig) \<noteq> []"
    and "RowTables (Tables dbConfig) \<noteq> []"
  shows "fst (fst (assembleQueries en dbConfig w)) =
           (sqlx_Rebind en (fst (sqlx_In en postgresIncrementQuery (IncrementTables (Tables dbConfig)) (dbSchema_of dbConfig))),
            fst (snd (sqlx_In en postgresIncrementQuery (IncrementTables (Tables dbConfig)) (dbSchema_of dbConfig)))) \<and>
         snd (fst (assembleQueries en dbConfig w)) =
           (sqlx_Rebind en (fst (sqlx_In en postgresRowQuery (RowTables (Tables dbConfig)) (dbSchema_of dbConfig))),
            fst (snd (sqlx_In en postgresRowQuery (RowTables (Tables dbConfig)) (dbSchema_of dbConfig)))) \<and>
         postgresIncrementQuery = postgresRowQuery \<and>
         filter is_WARN (new_logged w (snd (assembleQueries en dbConfig w))) = [] \<and>
         filter is_WARN (new_logged w (snd (getCountCollection en dbConfig w))) = []"
proof (intro conjI)
  show "fst (fst (assembleQueries en dbConfig w)) =
           (sqlx_Rebind en (fst (sqlx_In en postgresIncrementQuery (IncrementTables (Tables dbConfig)) (dbSchema_of dbConfig))),
            fst (snd (sqlx_In en postgresIncrementQuery (IncrementTables (Tables dbConfig)) (dbSchema_of dbConfig))))"
    by (simp add: assembleQueries_postgres [OF assms(1)] assembleQuery_nonempty [OF assms(2)])
  show "snd (fst (assembleQueries en dbConfig w)) =
           (sqlx_Rebind en (fst (sqlx_In en postgresRowQuery (RowTables (Tables dbConfig)) (dbSchema_of dbConfig))),
            fst (snd (sqlx_In en postgresRowQuery (RowTables (Tables dbConfig)) (dbSchema_of dbConfig))))"
    by (simp add: assembleQueries_postgres [OF assms(1)] assembleQuery_nonempty [OF assms(3)])
  show "postgresIncrementQuery = postgresRowQuery"
    by (simp add: postgresIncrementQuery_def postgresRowQuery_def)
  show "filter is_WARN (new_logged w (snd (assembleQueries en dbConfig w))) = []"
    by (rule filter_empty_new_logged [OF assembleQueries_logged]) simp
  show "filter is_WARN (new_logged w (snd (getCountCollection en dbConfig w))) = []"
    by (rule filter_empty_new_logged [OF getCountCollection_no_WARN]) simp
qed

theorem postgres_same_query_no_warning_witness:
  "Type both_target = ''postgres'' \<and>
   IncrementTables (Tables both_target) \<noteq> [] \<and>
   RowTables (Tables both_target) \<noteq> [] \<and>
   fst (fst (assembleQueries example_env both_target empty_world)) =
     (''SELECT relname,n_live_tup FROM pg_stat_user_tables WHERE relname IN ($1) AND schemaname = $2'',
      [''events'', ''public'']) \<and>
   snd (fst (assembleQueries example_env both_target empty_world)) =
     (''SELECT relname,n_live_tup FROM pg_stat_user_tables WHERE relname IN ($1) AND schemaname = $2'',
      [''events'', ''public'']) \<and>
   logged (snd (getCountCollection example_env both_target empty_world)) =
     [Printf (Some IncrementKind) ''INFO: Obtained value in database %s for table %s with count %d''
        [S ''events'', S ''events'', D 7],
      Printf (Some RowKind) ''INFO: Obtained value in database %s for table %s with count %d''
        [S ''events'', S ''events'', D 7]] \<and>
   filter is_WARN (new_logged empty_world (snd (getCountCollection example_env both_target empty_world))) = []"
proof -
  have t: "Type both_target = ''postgres''"
    and i: "IncrementTables (Tables both_target) \<noteq> []"
    and r: "RowTables (Tables both_target) \<noteq> []"
    by (simp_all add: both_target_def)
  have l: "logged (snd (getCountCollection example_env both_target empty_world)) =
     [Printf (Some IncrementKind) ''INFO: Obtained value in database %s for table %s with count %d''
        [S ''events'', S ''events'', D 7],
      Printf (Some RowKind) ''INFO: Obtained value in database %s for table %s with count %d''
        [S ''events'', S ''events'', D 7]]"
    by (simp add: both_run empty_world_def)
  have q: "sqlx_Rebind example_env (fst (sqlx_In example_env postgresRowQuery (IncrementTables (Tables both_target)) (dbSchema_of both_target))) =
      ''SELECT relname,n_live_tup FROM pg_stat_user_tables WHERE relname IN ($1) AND schemaname = $2''"
    "fst (snd (sqlx_In example_env postgresRowQuery (IncrementTables (Tables both_target)) (dbSchema_of both_target))) =
      [''events'', ''public'']"
    "sqlx_Rebind example_env (fst (sqlx_In example_env postgresRowQuery (RowTables (Tables both_target)) (dbSchema_of both_target))) =
      ''SELECT relname,n_live_tup FROM pg_stat_user_tables WHERE relname IN ($1) AND schemaname = $2''"
    "fst (snd (sqlx_In example_env postgresRowQuery (RowTables (Tables both_target)) (dbSchema_of both_target))) =
      [''events'', ''public'']"
    by (simp_all add: example_env_simps example_In_def example_Rebind_def postgresRowQuery_def
        both_target_def dbSchema_of_def dbType_of_def)
  from postgres_same_query_no_warning [OF t i r, of example_env empty_world] t i r l q
  show ?thesis by simp
qed

section \<open>Properties of a run\<close>

lemma getCountCollection_trace:
  "grows trace (\<lambda>e. \<not> is_diff_or_put e) w (snd (getCountCollection en dbConfig w))"
proof (cases "sql_Open en (dbType_of dbConfig) (dsn_of dbConfig)")
  case None
  have q: "is_query_of kind e \<Longrightarrow> \<not> is_diff_or_put e" for kind e
    by (cases e) simp_all
  have "grows trace (\<lambda>e. \<not> is_diff_or_put e) w (snd (assembleQueries en dbConfig w))"
    by (simp add: grows_def assembleQueries_trace)
  then show ?thesis
    unfolding getCountCollection_opened [OF None] snd_conv
    by (rule grows_trans [OF _ grows_trans])
      (rule grows_mono [OF q runQuery_trace], assumption)+
next
  case (Some err)
  then show ?thesis
    by (simp add: getCountCollection_not_opened grows_refl)
qed

lemma collectDatabases_files:
  "files (snd (collectDatabases en databases cur w)) = files w"
proof (induction databases arbitrary: cur w)
  case Nil
  show ?case by simp
next
  case (Cons database databases)
  have f: "files (snd (getCountCollection en database w)) = files w"
    by (rule getCountCollection_files)
  show ?case
    by (cases "getCountCollection en database w")
      (use f in \<open>auto simp: Cons.IH split: prod.splits option.splits\<close>)
qed

lemma collectDatabases_trace:
  "grows trace (\<lambda>e. \<not> is_diff_or_put e) w (snd (collectDatabases en databases cur w))"
proof (induction databases arbitrary: cur w)
  case Nil
  show ?case by (simp add: grows_refl)
next
  case (Cons database databases)
  have g: "grows trace (\<lambda>e. \<not> is_diff_or_put e) w (snd (getCountCollection en database w))"
    by (rule getCountCollection_trace)
  show ?case
    by (cases "getCountCollection en database w")
      (use g in \<open>auto simp: split: prod.splits option.splits intro: grows_trans [OF _ Cons.IH]\<close>)
qed

lemma writeCountCollections_ok:
  "yaml_Marshal en countCollections = Inr yaml \<Longrightarrow> os_Create en fileName = None \<Longrightarrow>
   writeCountCollections en fileName countCollections w =
     (None, record_event (Created fileName) (w\<lparr>files := (files w)(fileName \<mapsto> fmt_Fprintf en yaml)\<rparr>))"
  by (simp add: writeCountCollections_def)

lemma writeCountCollections_error:
  "fst (writeCountCollections en fileName countCollections w) =
     (case yaml_Marshal en countCollections of
        Inl err \<Rightarrow> Some err
      | Inr yaml \<Rightarrow> os_Create en fileName)"
  by (simp add: writeCountCollections_def split: sum.splits option.splits)

lemma writeCountCollections_failed:
  "fst (writeCountCollections en fileName countCollections w) = Some err \<Longrightarrow>
   snd (writeCountCollections en fileName countCollections w) = w"
  by (simp add: writeCountCollections_def split: sum.splits option.splits)

lemma writeCountCollections_trace:
  "grows trace (\<lambda>e. \<not> is_diff_or_put e) w (snd (writeCountCollections en fileName countCollections w))"
  by (simp add: writeCountCollections_def grows_def record_event_simps split: sum.splits option.splits)

lemma panicf_simps:
  "fst (panicf format operands w) = Panicked format operands"
  "trace (snd (panicf format operands w)) = trace w"
  "files (snd (panicf format operands w)) = files w"
  "logged (snd (panicf format operands w)) = logged w @ [Printf None format operands]"
  by (simp_all add: panicf_def logPrintf_simps)

lemma grows_panicf:
  "grows trace P w0 w \<Longrightarrow> grows trace P w0 (snd (panicf format operands w))"
  by (simp add: grows_def panicf_simps)

lemma main_config_failed:
  "loadApplicationConfig en configPath w = Inl err \<Longrightarrow>
   main en configPath w = panicf ''FATAL: Failed to load application config YAML: %s'' [E err] w"
  by (simp add: main_def)

lemma main_collect_failed:
  "loadApplicationConfig en configPath w = Inr config \<Longrightarrow>
   collectDatabases en (Databases config) [] w = (Inl (name, err), w1) \<Longrightarrow>
   main en configPath w = panicf ''FATAL: Failed to get counts for database %s: %s'' [S name, E err] w1"
  by (simp add: main_def)

lemma main_first_run:
  assumes "loadApplicationConfig en configPath w = Inr config"
    and "collectDatabases en (Databases config) [] w = (Inr cur, w1)"
    and "files w (CountPath config) = None"
  shows "main en configPath w =
     (case writeCountCollections en (CountPath config) (Some cur) w1 of
        (Some err, w2) \<Rightarrow> panicf ''FATAL: Failed to write counts YAML: %s'' [E err] w2
      | (None, w2) \<Rightarrow> (Exited 0, w2))"
proof -
  have "files w1 = files w"
    using collectDatabases_files [of en "Databases config" "[]" w] assms(2) by simp
  with assms show ?thesis
    by (simp add: main_def)
qed

text \<open>
  Claim C5 (first run). On a run whose configuration loads and for which no counts file
  exists at the configured path, no difference is computed and no metric point is put,
  whatever else happens. When collecting and writing do not fail, the run exits with
  status 0 and the file at the path holds the text that \<^verbatim>\<open>fmt.Fprintf\<close> wrote when
  given the marshalled current collections as its format string (line 544), so that
  loading the file gives the YAML library's reading of that text. The file holds the
  current collections, the ones a later run loads, when that text went through
  \<^verbatim>\<open>Fprintf\<close> unchanged and the YAML library reads back what it marshals; with a
  percent sign in a database or table name it holds other keys, as the example shows. A
  run that exits with status 0 has written the file.
\<close>

theorem first_run_saves_without_publishing:
  assumes cfg: "loadApplicationConfig en configPath w = Inr config"
    and nofile: "files w (CountPath config) = None"
  shows "filter is_diff_or_put (new_trace w (snd (main en configPath w))) = [] \<and>
         (\<forall>cur yaml. fst (collectDatabases en (Databases config) [] w) = Inr cur \<longrightarrow>
              yaml_Marshal en (Some cur) = Inr yaml \<longrightarrow> os_Create en (CountPath config) = None \<longrightarrow>
              fst (main en configPath w) = Exited 0 \<and>
              files (snd (main en configPath w)) (CountPath config) = Some (fmt_Fprintf en yaml) \<and>
              loadCountCollections en (CountPath config) (snd (main en configPath w)) =
                yaml_Unmarshal en (fmt_Fprintf en yaml) \<and>
              (fmt_Fprintf en yaml = yaml \<longrightarrow> yaml_Unmarshal en yaml = Inr (Some cur) \<longrightarrow>
                 loadCountCollections en (CountPath config) (snd (main en configPath w)) = Inr (Some cur))) \<and>
         (fst (main en configPath w) = Exited 0 \<longrightarrow>
            (\<exists>cur yaml. fst (collectDatabases en (Databases config) [] w) = Inr cur \<and>
               yaml_Marshal en (Some cur) = Inr yaml \<and>
               files (snd (main en configPath w)) (CountPath config) = Some (fmt_Fprintf en yaml)))"
proof -
  obtain r w1 where cd: "collectDatabases en (Databases config) [] w = (r, w1)"
    by (cases "collectDatabases en (Databases config) [] w")
  have g1: "grows trace (\<lambda>e. \<not> is_diff_or_put e) w w1"
    using collectDatabases_trace [of w en "Databases config" "[]"] cd by simp
  show ?thesis
  proof (cases r)
    case (Inl failure)
    obtain name err where failure: "failure = (name, err)" by (cases failure)
    have m: "main en configPath w =
        panicf ''FATAL: Failed to get counts for database %s: %s'' [S name, E err] w1"
      using cfg cd Inl failure by (simp add: main_collect_failed)
    have "grows trace (\<lambda>e. \<not> is_diff_or_put e) w (snd (main en configPath w))"
      unfolding m by (rule grows_panicf [OF g1])
    then have "filter is_diff_or_put (new_trace w (snd (main en configPath w))) = []"
      by (rule filter_empty_new_trace) simp
    then show ?thesis
      using cd Inl by (simp add: m panicf_simps)
  next
    case (Inr cur)
    let ?ww = "writeCountCollections en (CountPath config) (Some cur) w1"
    have m: "main en configPath w =
        (case ?ww of
           (Some err, w2) \<Rightarrow> panicf ''FATAL: Failed to write counts YAML: %s'' [E err] w2
         | (None, w2) \<Rightarrow> (Exited 0, w2))"
      using cfg cd Inr nofile by (simp add: main_first_run)
    have g2: "grows trace (\<lambda>e. \<not> is_diff_or_put e) w (snd ?ww)"
      by (rule grows_trans [OF g1 writeCountCollections_trace])
    show ?thesis
    proof (cases "fst ?ww")
      case None
      then have m': "main en configPath w = (Exited 0, snd ?ww)"
        by (cases ?ww) (simp add: m)
      from None obtain yaml where y: "yaml_Marshal en (Some cur) = Inr yaml"
        and c: "os_Create en (CountPath config) = None"
        by (auto simp: writeCountCollections_error split: sum.splits)
      have saved: "files (snd ?ww) (CountPath config) = Some (fmt_Fprintf en yaml)"
        by (simp add: writeCountCollections_ok [OF y c] record_event_simps)
      have loaded: "loadCountCollections en (CountPath config) (snd ?ww) = yaml_Unmarshal en (fmt_Fprintf en yaml)"
        by (simp add: loadCountCollections_def saved)
      have "filter is_diff_or_put (new_trace w (snd (main en configPath w))) = []"
        unfolding m' snd_conv by (rule filter_empty_new_trace [OF g2]) simp
      then show ?thesis
        using cd Inr y saved loaded by (simp add: m')
    next
      case (Some err)
      then have m': "main en configPath w =
          panicf ''FATAL: Failed to write counts YAML: %s'' [E err] (snd ?ww)"
        by (cases ?ww) (simp add: m)
      have "grows trace (\<lambda>e. \<not> is_diff_or_put e) w (snd (main en configPath w))"
        unfolding m' by (rule grows_panicf [OF g2])
      then have "filter is_diff_or_put (new_trace w (snd (main en configPath w))) = []"
        by (rule filter_empty_new_trace) simp
      moreover have "\<not> (\<exists>yaml. yaml_Marshal en (Some cur) = Inr yaml \<and> os_Create en (CountPath config) = None)"
        using Some by (auto simp: writeCountCollections_error)
      ultimately show ?thesis
        using cd Inr by (auto simp: m' panicf_simps)
    qed
  qed
qed

theorem first_run_saves_without_publishing_witness:
  "loadApplicationConfig percent_env ''config.yml'' percent_first_world = Inr percent_config \<and>
   files percent_first_world (CountPath percent_config) = None \<and>
   fst (collectDatabases percent_env (Databases percent_config) [] percent_first_world) =
     Inr [(''metrics'', \<lparr>Increment = Some [], Row = Some [(''disk%used'', 42)]\<rparr>)] \<and>
   yaml_Marshal percent_env (Some [(''metrics'', \<lparr>Increment = Some [], Row = Some [(''disk%used'', 42)]\<rparr>)]) =
     Inr percent_yaml \<and>
   os_Create percent_env (CountPath percent_config) = None \<and>
   fmt_Fprintf percent_env percent_yaml = missing_yaml \<and>
   filter is_diff_or_put
     (new_trace percent_first_world (snd (main percent_env ''config.yml'' percent_first_world))) = [] \<and>
   fst (main percent_env ''config.yml'' percent_first_world) = Exited 0 \<and>
   files (snd (main percent_env ''config.yml'' percent_first_world)) (CountPath percent_config) =
     Some missing_yaml \<and>
   loadCountCollections percent_env (CountPath percent_config)
       (snd (main percent_env ''config.yml'' percent_first_world)) = Inr missing_counts \<and>
   missing_counts \<noteq> Some [(''metrics'', \<lparr>Increment = Some [], Row = Some [(''disk%used'', 42)]\<rparr>)] \<and>
   loadApplicationConfig example_env ''config.yml'' first_world = Inr example_config \<and>
   files first_world (CountPath example_config) = None \<and>
   fst (collectDatabases example_env (Databases example_config) [] first_world) =
     Inr [(''events'', \<lparr>Increment = Some [], Row = Some [(''events'', 7)]\<rparr>)] \<and>
   yaml_Marshal example_env (Some [(''events'', \<lparr>Increment = Some [], Row = Some [(''events'', 7)]\<rparr>)]) =
     Inr events_yaml_7 \<and>
   os_Create example_env (CountPath example_config) = None \<and>
   fmt_Fprintf example_env events_yaml_7 = events_yaml_7 \<and>
   yaml_Unmarshal example_env events_yaml_7 =
     Inr (Some [(''events'', \<lparr>Increment = Some [], Row = Some [(''events'', 7)]\<rparr>)]) \<and>
   filter is_diff_or_put (new_trace first_world (snd (main example_env ''config.yml'' first_world))) = [] \<and>
   fst (main example_env ''config.yml'' first_world) = Exited 0 \<and>
   files (snd (main example_env ''config.yml'' first_world)) (CountPath example_config) = Some events_yaml_7 \<and>
   loadCountCollections example_env (CountPath example_config)
       (snd (main example_env ''config.yml'' first_world)) =
     Inr (Some [(''events'', \<lparr>Increment = Some [], Row = Some [(''events'', 7)]\<rparr>)])"
proof -
  let ?pcur = "[(''metrics'', \<lparr>Increment = Some [], Row = Some [(''disk%used'', 42 :: go_int)]\<rparr>)]"
  let ?ecur = "[(''events'', \<lparr>Increment = Some [], Row = Some [(''events'', 7 :: go_int)]\<rparr>)]"
  have pc: "loadApplicationConfig percent_env ''config.yml'' percent_first_world = Inr percent_config"
    by (rule percent_load_config)
  have pn: "files percent_first_world (CountPath percent_config) = None"
    by (simp add: percent_first_world_def percent_config_def)
  have pcd: "fst (collectDatabases percent_env (Databases percent_config) [] percent_first_world) = Inr ?pcur"
    by (simp add: percent_collect)
  have py: "yaml_Marshal percent_env (Some ?pcur) = Inr percent_yaml"
    by (rule percent_marshal)
  have poc: "os_Create percent_env (CountPath percent_config) = None"
    by (simp add: percent_env_simps)
  have pf: "fmt_Fprintf percent_env percent_yaml = missing_yaml"
    by (rule percent_Fprintf)
  have pu: "yaml_Unmarshal percent_env missing_yaml = Inr missing_counts"
    by (rule percent_unmarshal)
  have pd: "missing_counts \<noteq> Some ?pcur"
    by (rule missing_not_percent)
  from first_run_saves_without_publishing [OF pc pn] pcd py poc
  have p: "filter is_diff_or_put
       (new_trace percent_first_world (snd (main percent_env ''config.yml'' percent_first_world))) = []"
    "fst (main percent_env ''config.yml'' percent_first_world) = Exited 0"
    "files (snd (main percent_env ''config.yml'' percent_first_world)) (CountPath percent_config) =
       Some (fmt_Fprintf percent_env percent_yaml)"
    "loadCountCollections percent_env (CountPath percent_config)
       (snd (main percent_env ''config.yml'' percent_first_world)) =
     yaml_Unmarshal percent_env (fmt_Fprintf percent_env percent_yaml)"
    by blast+
  have ec: "loadApplicationConfig example_env ''config.yml'' first_world = Inr example_config"
    by (rule example_load_config)
  have en: "files first_world (CountPath example_config) = None"
    by (simp add: first_world_def example_config_def)
  have ecd: "fst (collectDatabases example_env (Databases example_config) [] first_world) = Inr ?ecur"
    by (simp add: example_collect)
  have ey: "yaml_Marshal example_env (Some ?ecur) = Inr events_yaml_7"
    by (rule example_marshal_7)
  have eoc: "os_Create example_env (CountPath example_config) = None"
    by (simp add: example_env_simps)
  have ef: "fmt_Fprintf example_env events_yaml_7 = events_yaml_7"
    by (rule example_Fprintf_7)
  have eu: "yaml_Unmarshal example_env events_yaml_7 = Inr (Some ?ecur)"
    by (rule example_unmarshal_7)
  from first_run_saves_without_publishing [OF ec en] ecd ey eoc ef eu
  have e: "filter is_diff_or_put (new_trace first_world (snd (main example_env ''config.yml'' first_world))) = []"
    "fst (main example_env ''config.yml'' first_world) = Exited 0"
    "files (snd (main example_env ''config.yml'' first_world)) (CountPath example_config) =
       Some (fmt_Fprintf example_env events_yaml_7)"
    "loadCountCollections example_env (CountPath example_config)
       (snd (main example_env ''config.yml'' first_world)) = Inr (Some ?ecur)"
    by blast+
  show ?thesis
    using pc pn pcd py poc pf pu pd p ec en ecd ey eoc ef eu e by simp
qed

section \<open>A run that finds a counts file\<close>

lemma grows_True:
  "grows field P w w' \<Longrightarrow> grows field (\<lambda>x. True) w w'"
  by (rule grows_mono) simp

lemma collectDatabases_logged:
  "grows logged (\<lambda>l. True) w (snd (collectDatabases en databases cur w))"
proof (induction databases arbitrary: cur w)
  case Nil
  show ?case by (simp add: grows_refl)
next
  case (Cons database databases)
  have g: "grows logged (\<lambda>l. True) w (snd (getCountCollection en database w))"
    by (rule grows_True [OF getCountCollection_no_WARN])
  show ?case
    by (cases "getCountCollection en database w")
      (use g in \<open>auto simp: split: prod.splits option.splits intro: grows_trans [OF _ Cons.IH]\<close>)
qed

lemma diffCollections_world:
  "files (snd (diffCollections cur lastCs diffs w)) = files w"
  "logged (snd (diffCollections cur lastCs diffs w)) = logged w"
  "grows trace (\<lambda>e. True) w0 w \<Longrightarrow> grows trace (\<lambda>e. True) w0 (snd (diffCollections cur lastCs diffs w))"
proof (induction cur arbitrary: diffs w)
  case Nil
  {
    case 1 show ?case by simp
  next
    case 2 show ?case by simp
  next
    case 3 then show ?case by simp
  }
next
  case (Cons c cur)
  obtain name cc where c: "c = (name, cc)" by (cases c)
  {
    case 1 show ?case
      by (cases "index_map lastCs name") (simp_all add: c Cons.IH(1) record_event_simps)
  next
    case 2 show ?case
      by (cases "index_map lastCs name") (simp_all add: c Cons.IH(2) record_event_simps)
  next
    case 3
    from 3 have "grows trace (\<lambda>e. True) w0 (record_event (Diffed name) w)"
      by (rule grows_trans) (rule grows_record_event, simp)
    with 3 show ?case
      by (cases "index_map lastCs name") (simp_all add: c Cons.IH(3))
  }
qed

lemma grows_step:
  "grows logged (\<lambda>l. True) w0 w \<Longrightarrow> grows logged (\<lambda>l. True) w0 (logPrintf k format operands (record_event e w))"
  "grows trace (\<lambda>e. True) w0 w \<Longrightarrow> grows trace (\<lambda>e. True) w0 (logPrintf k format operands (record_event e w))"
  by (auto simp: grows_def logPrintf_simps record_event_simps)

lemma putCounts_world:
  "files (putCounts en failure success namespace name counts w) = files w"
  "grows logged (\<lambda>l. True) w0 w \<Longrightarrow>
   grows logged (\<lambda>l. True) w0 (putCounts en failure success namespace name counts w)"
  "grows trace (\<lambda>e. True) w0 w \<Longrightarrow>
   grows trace (\<lambda>e. True) w0 (putCounts en failure success namespace name counts w)"
proof (induction counts arbitrary: w)
  case Nil
  {
    case 1 show ?case by simp
  next
    case 2 then show ?case by simp
  next
    case 3 then show ?case by simp
  }
next
  case (Cons c counts)
  obtain countName count where c: "c = (countName, count)" by (cases c)
  {
    case 1 show ?case
      by (simp add: c Cons.IH(1) logPrintf_simps record_event_simps split: option.splits)
  next
    case 2
    then show ?case
      by (simp add: c Cons.IH(2) grows_step split: option.splits)
  next
    case 3
    then show ?case
      by (simp add: c Cons.IH(3) grows_step split: option.splits)
  }
qed

lemma putCollections_world:
  "files (putCollections en namespace collections w) = files w"
  "grows logged (\<lambda>l. True) w0 w \<Longrightarrow> grows logged (\<lambda>l. True) w0 (putCollections en namespace collections w)"
  "grows trace (\<lambda>e. True) w0 w \<Longrightarrow> grows trace (\<lambda>e. True) w0 (putCollections en namespace collections w)"
proof (induction collections arbitrary: w)
  case Nil
  {
    case 1 show ?case by simp
  next
    case 2 then show ?case by simp
  next
    case 3 then show ?case by simp
  }
next
  case (Cons c collections)
  obtain name cc where c: "c = (name, cc)" by (cases c)
  {
    case 1 show ?case
      by (simp add: c Cons.IH(1) putCounts_world(1))
  next
    case 2
    then show ?case
      by (simp add: c Cons.IH(2) putCounts_world(2))
  next
    case 3
    then show ?case
      by (simp add: c Cons.IH(3) putCounts_world(3))
  }
qed

lemma putAWSCountCollectionMetrics_error:
  "fst (putAWSCountCollectionMetrics en countCollections awsConfig w) =
     (case session_NewSession en (credentials_of awsConfig) of
        Some err \<Rightarrow> Some err
      | None \<Rightarrow> credentials_Get en (credentials_of awsConfig))"
  by (simp add: putAWSCountCollectionMetrics_def split: option.splits)

lemma putAWSCountCollectionMetrics_world:
  "files (snd (putAWSCountCollectionMetrics en countCollections awsConfig w)) = files w"
  "grows logged (\<lambda>l. True) w0 w \<Longrightarrow>
   grows logged (\<lambda>l. True) w0 (snd (putAWSCountCollectionMetrics en countCollections awsConfig w))"
  "grows trace (\<lambda>e. True) w0 w \<Longrightarrow>
   grows trace (\<lambda>e. True) w0 (snd (putAWSCountCollectionMetrics en countCollections awsConfig w))"
  by (simp_all add: putAWSCountCollectionMetrics_def putCollections_world split: option.splits)

lemma main_later_run:
  assumes "loadApplicationConfig en configPath w = Inr config"
    and "collectDatabases en (Databases config) [] w = (Inr cur, w1)"
    and "files w (CountPath config) = Some source"
    and "yaml_Unmarshal en source = Inr lastCs"
  shows "main en configPath w =
     (case writeCountCollections en (CountPath config) (Some cur)
             (case fst (putAWSCountCollectionMetrics en (Some (fst (diffCollections cur lastCs [] w1)))
                          (AwsConfig config) (snd (diffCollections cur lastCs [] w1))) of
                Some err \<Rightarrow>
                  logPrintf None ''ERROR: Failed to push Cloudwatch metrics: %s'' [E err]
                    (snd (putAWSCountCollectionMetrics en (Some (fst (diffCollections cur lastCs [] w1)))
                            (AwsConfig config) (snd (diffCollections cur lastCs [] w1))))
              | None \<Rightarrow>
                  snd (putAWSCountCollectionMetrics en (Some (fst (diffCollections cur lastCs [] w1)))
                         (AwsConfig config) (snd (diffCollections cur lastCs [] w1)))) of
        (Some err, w4) \<Rightarrow> panicf ''FATAL: Failed to save counts YAML: %s'' [E err] w4
      | (None, w4) \<Rightarrow> (Exited 0, w4))"
proof -
  have "files w1 = files w"
    using collectDatabases_files [of en "Databases config" "[]" w] assms(2) by simp
  with assms show ?thesis
    by (simp add: main_def loadCountCollections_def split_beta)
qed

text \<open>
  Claim C7 (save despite a publish error). On a run whose configuration loads, whose
  collection succeeds and whose counts file exists and loads, how the process ends
  depends on the save alone: status 0 when marshalling and creating the file succeed, the
  panic of a failed save otherwise; no error of the publish step changes it. When the
  save succeeds, the trace of the run shows the file created, and the counts file holds
  the text that \<^verbatim>\<open>fmt.Fprintf\<close> wrote when given the marshalled current collections as
  its format string (line 544), so that loading the file gives the YAML library's reading
  of that text. The file holds the current collections when that text went through
  \<^verbatim>\<open>Fprintf\<close> unchanged and the YAML library reads back what it marshals; with a
  percent sign in a database or table name it holds other keys, as the example shows. An
  error returned by the publish step is logged as an ERROR line.
\<close>

theorem save_despite_publish_error:
  assumes cfg: "loadApplicationConfig en configPath w = Inr config"
    and cd: "fst (collectDatabases en (Databases config) [] w) = Inr cur"
    and prior: "files w (CountPath config) = Some source"
    and loaded: "yaml_Unmarshal en source = Inr lastCs"
  shows "fst (main en configPath w) =
           (case yaml_Marshal en (Some cur) of
              Inl err \<Rightarrow> Panicked ''FATAL: Failed to save counts YAML: %s'' [E err]
            | Inr yaml \<Rightarrow>
                (case os_Create en (CountPath config) of
                   Some err \<Rightarrow> Panicked ''FATAL: Failed to save counts YAML: %s'' [E err]
                 | None \<Rightarrow> Exited 0)) \<and>
         (\<forall>yaml. yaml_Marshal en (Some cur) = Inr yaml \<longrightarrow> os_Create en (CountPath config) = None \<longrightarrow>
            files (snd (main en configPath w)) (CountPath config) = Some (fmt_Fprintf en yaml) \<and>
            Created (CountPath config) \<in> set (new_trace w (snd (main en configPath w))) \<and>
            loadCountCollections en (CountPath config) (snd (main en configPath w)) =
              yaml_Unmarshal en (fmt_Fprintf en yaml) \<and>
            (fmt_Fprintf en yaml = yaml \<longrightarrow> yaml_Unmarshal en yaml = Inr (Some cur) \<longrightarrow>
               loadCountCollections en (CountPath config) (snd (main en configPath w)) = Inr (Some cur))) \<and>
         (\<forall>err. (case session_NewSession en (credentials_of (AwsConfig config)) of
                   Some e \<Rightarrow> Some e
                 | None \<Rightarrow> credentials_Get en (credentials_of (AwsConfig config))) = Some err \<longrightarrow>
            Printf None ''ERROR: Failed to push Cloudwatch metrics: %s'' [E err]
              \<in> set (new_logged w (snd (main en configPath w))))"
proof -
  let ?path = "CountPath config"
  let ?w1 = "snd (collectDatabases en (Databases config) [] w)"
  let ?D = "diffCollections cur lastCs [] ?w1"
  let ?P = "putAWSCountCollectionMetrics en (Some (fst ?D)) (AwsConfig config) (snd ?D)"
  let ?perr = "case session_NewSession en (credentials_of (AwsConfig config)) of
                   Some e \<Rightarrow> Some e
                 | None \<Rightarrow> credentials_Get en (credentials_of (AwsConfig config))"
  let ?line = "\<lambda>err. Printf None ''ERROR: Failed to push Cloudwatch metrics: %s'' [E err]"
  let ?W3 = "case fst ?P of Some err \<Rightarrow> logPrintf None ''ERROR: Failed to push Cloudwatch metrics: %s'' [E err] (snd ?P)
             | None \<Rightarrow> snd ?P"
  let ?WW = "writeCountCollections en ?path (Some cur) ?W3"
  have cd': "collectDatabases en (Databases config) [] w = (Inr cur, ?w1)"
    using cd by (cases "collectDatabases en (Databases config) [] w") simp
  have m: "main en configPath w =
      (case ?WW of
         (Some err, w4) \<Rightarrow> panicf ''FATAL: Failed to save counts YAML: %s'' [E err] w4
       | (None, w4) \<Rightarrow> (Exited 0, w4))"
    by (rule main_later_run [OF cfg cd' prior loaded])
  have perr: "fst ?P = ?perr"
    by (rule putAWSCountCollectionMetrics_error)
  have t1: "grows trace (\<lambda>e. True) w ?w1"
    by (rule grows_True [OF collectDatabases_trace])
  have tP: "grows trace (\<lambda>e. True) w (snd ?P)"
    by (rule putAWSCountCollectionMetrics_world(3) [OF diffCollections_world(3) [OF t1]])
  have "trace ?W3 = trace (snd ?P)"
    by (simp add: logPrintf_simps split: option.splits)
  with tP obtain es where es: "trace ?W3 = trace w @ es"
    by (auto simp: grows_def)
  have l1: "grows logged (\<lambda>l. True) w (snd ?D)"
    using collectDatabases_logged [of w en "Databases config" "[]"]
    by (simp add: grows_def diffCollections_world(2))
  have "grows logged (\<lambda>l. True) w (snd ?P)"
    by (rule putAWSCountCollectionMetrics_world(2) [OF l1])
  then obtain lp where lp: "logged (snd ?P) = logged w @ lp"
    by (auto simp: grows_def)
  have "\<exists>ls. logged ?W3 = logged w @ ls \<and> (\<forall>err. ?perr = Some err \<longrightarrow> ?line err \<in> set ls)"
  proof (cases "fst ?P")
    case None
    have pe: "?perr = None"
      using perr None by simp
    have "logged ?W3 = logged w @ lp"
      by (simp add: None lp)
    moreover have "\<forall>e. ?perr = Some e \<longrightarrow> ?line e \<in> set lp"
      by (simp add: pe)
    ultimately show ?thesis by blast
  next
    case (Some err)
    have pe: "?perr = Some err"
      using perr Some by simp
    have "logged ?W3 = logged w @ (lp @ [?line err])"
      by (simp add: Some logPrintf_simps lp)
    moreover have "\<forall>e. ?perr = Some e \<longrightarrow> ?line e \<in> set (lp @ [?line err])"
      by (simp add: pe)
    ultimately show ?thesis by blast
  qed
  then obtain ls where ls: "logged ?W3 = logged w @ ls"
    and reported: "\<forall>err. ?perr = Some err \<longrightarrow> ?line err \<in> set ls"
    by blast
  show ?thesis
  proof (cases "fst ?WW")
    case None
    then have m': "main en configPath w = (Exited 0, snd ?WW)"
      by (cases ?WW) (simp add: m)
    from None obtain yaml where y: "yaml_Marshal en (Some cur) = Inr yaml"
      and c: "os_Create en ?path = None"
      by (auto simp: writeCountCollections_error split: sum.splits)
    have ww: "snd ?WW = record_event (Created ?path) (?W3\<lparr>files := (files ?W3)(?path \<mapsto> fmt_Fprintf en yaml)\<rparr>)"
      by (simp add: writeCountCollections_ok [OF y c])
    have saved: "files (snd ?WW) ?path = Some (fmt_Fprintf en yaml)"
      by (simp add: ww record_event_simps)
    have "loadCountCollections en ?path (snd ?WW) = yaml_Unmarshal en (fmt_Fprintf en yaml)"
      unfolding loadCountCollections_def saved by simp
    moreover note saved
    moreover have "new_trace w (snd ?WW) = es @ [Created ?path]"
      by (simp add: ww record_event_simps new_trace_def es)
    moreover have "new_logged w (snd ?WW) = ls"
      by (simp add: ww record_event_simps new_logged_def ls)
    ultimately show ?thesis
      using y c reported by (simp add: m')
  next
    case (Some err)
    then have m': "main en configPath w =
        panicf ''FATAL: Failed to save counts YAML: %s'' [E err] (snd ?WW)"
      by (cases ?WW) (simp add: m)
    have ww: "snd ?WW = ?W3"
      by (rule writeCountCollections_failed [OF Some])
    have nl: "new_logged w (snd (main en configPath w)) =
        ls @ [Printf None ''FATAL: Failed to save counts YAML: %s'' [E err]]"
      by (simp add: m' ww panicf_simps new_logged_def ls)
    have no: "\<not> (\<exists>yaml. yaml_Marshal en (Some cur) = Inr yaml \<and> os_Create en ?path = None)"
      using Some by (auto simp: writeCountCollections_error)
    have ex: "(case yaml_Marshal en (Some cur) of
              Inl err \<Rightarrow> Panicked ''FATAL: Failed to save counts YAML: %s'' [E err]
            | Inr yaml \<Rightarrow>
                (case os_Create en ?path of
                   Some err \<Rightarrow> Panicked ''FATAL: Failed to save counts YAML: %s'' [E err]
                 | None \<Rightarrow> Exited 0)) = Panicked ''FATAL: Failed to save counts YAML: %s'' [E err]"
      using Some by (auto simp: writeCountCollections_error split: sum.splits option.splits)
    have c1: "fst (main en configPath w) =
           (case yaml_Marshal en (Some cur) of
              Inl err \<Rightarrow> Panicked ''FATAL: Failed to save counts YAML: %s'' [E err]
            | Inr yaml \<Rightarrow>
                (case os_Create en ?path of
                   Some err \<Rightarrow> Panicked ''FATAL: Failed to save counts YAML: %s'' [E err]
                 | None \<Rightarrow> Exited 0))"
      unfolding ex by (simp add: m' panicf_simps)
    have c2: "\<forall>yaml. yaml_Marshal en (Some cur) = Inr yaml \<longrightarrow> os_Create en ?path = None \<longrightarrow>
            files (snd (main en configPath w)) ?path = Some (fmt_Fprintf en yaml) \<and>
            Created ?path \<in> set (new_trace w (snd (main en configPath w))) \<and>
            loadCountCollections en ?path (snd (main en configPath w)) =
              yaml_Unmarshal en (fmt_Fprintf en yaml) \<and>
            (fmt_Fprintf en yaml = yaml \<longrightarrow> yaml_Unmarshal en yaml = Inr (Some cur) \<longrightarrow>
               loadCountCollections en ?path (snd (main en configPath w)) = Inr (Some cur))"
      using no by blast
    have c3: "\<forall>err. ?perr = Some err \<longrightarrow> ?line err \<in> set (new_logged w (snd (main en configPath w)))"
      unfolding nl using reported by simp
    from c1 c2 c3 show ?thesis by blast
  qed
qed

theorem save_despite_publish_error_witness:
  "loadApplicationConfig percent_env ''config.yml'' percent_later_world = Inr percent_config \<and>
   fst (collectDatabases percent_env (Databases percent_config) [] percent_later_world) =
     Inr [(''metrics'', \<lparr>Increment = Some [], Row = Some [(''disk%used'', 42)]\<rparr>)] \<and>
   files percent_later_world (CountPath percent_config) = Some earlier_percent_yaml \<and>
   yaml_Unmarshal percent_env earlier_percent_yaml = Inr earlier_percent_counts \<and>
   session_NewSession percent_env (credentials_of (AwsConfig percent_config)) =
     Some (Error ''NoCredentialProviders'') \<and>
   yaml_Marshal percent_env (Some [(''metrics'', \<lparr>Increment = Some [], Row = Some [(''disk%used'', 42)]\<rparr>)]) =
     Inr percent_yaml \<and>
   os_Create percent_env (CountPath percent_config) = None \<and>
   fmt_Fprintf percent_env percent_yaml = missing_yaml \<and>
   fst (main percent_env ''config.yml'' percent_later_world) = Exited 0 \<and>
   Printf None ''ERROR: Failed to push Cloudwatch metrics: %s'' [E (Error ''NoCredentialProviders'')]
     \<in> set (new_logged percent_later_world (snd (main percent_env ''config.yml'' percent_later_world))) \<and>
   Created (CountPath percent_config)
     \<in> set (new_trace percent_later_world (snd (main percent_env ''config.yml'' percent_later_world))) \<and>
   files (snd (main percent_env ''config.yml'' percent_later_world)) (CountPath percent_config) =
     Some missing_yaml \<and>
   loadCountCollections percent_env (CountPath percent_config)
       (snd (main percent_env ''config.yml'' percent_later_world)) = Inr missing_counts \<and>
   missing_counts \<noteq> Some [(''metrics'', \<lparr>Increment = Some [], Row = Some [(''disk%used'', 42)]\<rparr>)] \<and>
   loadApplicationConfig no_credentials_env ''config.yml'' later_world = Inr example_config \<and>
   fst (collectDatabases no_credentials_env (Databases example_config) [] later_world) =
     Inr [(''events'', \<lparr>Increment = Some [], Row = Some [(''events'', 7)]\<rparr>)] \<and>
   files later_world (CountPath example_config) = Some events_yaml_10 \<and>
   yaml_Unmarshal no_credentials_env events_yaml_10 = Inr (events_counts 10) \<and>
   session_NewSession no_credentials_env (credentials_of (AwsConfig example_config)) =
     Some (Error ''NoCredentialProviders'') \<and>
   yaml_Marshal no_credentials_env (Some [(''events'', \<lparr>Increment = Some [], Row = Some [(''events'', 7)]\<rparr>)]) =
     Inr events_yaml_7 \<and>
   os_Create no_credentials_env (CountPath example_config) = None \<and>
   fmt_Fprintf no_credentials_env events_yaml_7 = events_yaml_7 \<and>
   yaml_Unmarshal no_credentials_env events_yaml_7 =
     Inr (Some [(''events'', \<lparr>Increment = Some [], Row = Some [(''events'', 7)]\<rparr>)]) \<and>
   fst (main no_credentials_env ''config.yml'' later_world) = Exited 0 \<and>
   Printf None ''ERROR: Failed to push Cloudwatch metrics: %s'' [E (Error ''NoCredentialProviders'')]
     \<in> set (new_logged later_world (snd (main no_credentials_env ''config.yml'' later_world))) \<and>
   Created (CountPath example_config)
     \<in> set (new_trace later_world (snd (main no_credentials_env ''config.yml'' later_world))) \<and>
   files (snd (main no_credentials_env ''config.yml'' later_world)) (CountPath example_config) =
     Some events_yaml_7 \<and>
   loadCountCollections no_credentials_env (CountPath example_config)
       (snd (main no_credentials_env ''config.yml'' later_world)) =
     Inr (Some [(''events'', \<lparr>Increment = Some [], Row = Some [(''events'', 7)]\<rparr>)])"
proof -
  let ?pcur = "[(''metrics'', \<lparr>Increment = Some [], Row = Some [(''disk%used'', 42 :: go_int)]\<rparr>)]"
  let ?ecur = "[(''events'', \<lparr>Increment = Some [], Row = Some [(''events'', 7 :: go_int)]\<rparr>)]"
  let ?line = "Printf None ''ERROR: Failed to push Cloudwatch metrics: %s'' [E (Error ''NoCredentialProviders'')]"
  have pc: "loadApplicationConfig percent_env ''config.yml'' percent_later_world = Inr percent_config"
    by (rule percent_load_config)
  have pcd: "fst (collectDatabases percent_env (Databases percent_config) [] percent_later_world) = Inr ?pcur"
    by (simp add: percent_collect)
  have pp: "files percent_later_world (CountPath percent_config) = Some earlier_percent_yaml"
    by (simp add: percent_later_world_def percent_config_def)
  have pl: "yaml_Unmarshal percent_env earlier_percent_yaml = Inr earlier_percent_counts"
    by (rule percent_unmarshal)
  have ps: "session_NewSession percent_env (credentials_of (AwsConfig percent_config)) =
      Some (Error ''NoCredentialProviders'')"
    by (simp add: percent_env_simps)
  have py: "yaml_Marshal percent_env (Some ?pcur) = Inr percent_yaml"
    by (rule percent_marshal)
  have poc: "os_Create percent_env (CountPath percent_config) = None"
    by (simp add: percent_env_simps)
  have pf: "fmt_Fprintf percent_env percent_yaml = missing_yaml"
    by (rule percent_Fprintf)
  have pu: "yaml_Unmarshal percent_env missing_yaml = Inr missing_counts"
    by (rule percent_unmarshal)
  have pd: "missing_counts \<noteq> Some ?pcur"
    by (rule missing_not_percent)
  note pt = save_despite_publish_error [OF pc pcd pp pl]
  from pt have p1: "fst (main percent_env ''config.yml'' percent_later_world) = Exited 0"
    by (simp add: py poc)
  from pt have p2: "?line
      \<in> set (new_logged percent_later_world (snd (main percent_env ''config.yml'' percent_later_world)))"
    by (simp add: ps)
  from pt py poc
  have p3: "Created (CountPath percent_config)
      \<in> set (new_trace percent_later_world (snd (main percent_env ''config.yml'' percent_later_world)))"
    "files (snd (main percent_env ''config.yml'' percent_later_world)) (CountPath percent_config) =
      Some (fmt_Fprintf percent_env percent_yaml)"
    "loadCountCollections percent_env (CountPath percent_config)
       (snd (main percent_env ''config.yml'' percent_later_world)) =
     yaml_Unmarshal percent_env (fmt_Fprintf percent_env percent_yaml)"
    by blast+
  have ec: "loadApplicationConfig no_credentials_env ''config.yml'' later_world = Inr example_config"
    by (simp add: loadApplicationConfig_def later_world_def no_credentials_env_simps
        example_Unmarshal_config_def)
  have ecd: "fst (collectDatabases no_credentials_env (Databases example_config) [] later_world) = Inr ?ecur"
    by (simp add: example_config_def no_credentials_run events_run events_target_Name)
  have ep: "files later_world (CountPath example_config) = Some events_yaml_10"
    by (simp add: later_world_def example_config_def)
  have el: "yaml_Unmarshal no_credentials_env events_yaml_10 = Inr (events_counts 10)"
    by (simp add: no_credentials_env_simps example_values)
  have es: "session_NewSession no_credentials_env (credentials_of (AwsConfig example_config)) =
      Some (Error ''NoCredentialProviders'')"
    by (simp add: no_credentials_env_simps)
  have ey: "yaml_Marshal no_credentials_env (Some ?ecur) = Inr events_yaml_7"
    by (simp add: no_credentials_env_simps example_values)
  have eoc: "os_Create no_credentials_env (CountPath example_config) = None"
    by (simp add: no_credentials_env_simps)
  have ef: "fmt_Fprintf no_credentials_env events_yaml_7 = events_yaml_7"
    by (simp add: no_credentials_env_simps events_yaml_7_def)
  have eu: "yaml_Unmarshal no_credentials_env events_yaml_7 = Inr (Some ?ecur)"
    by (simp add: no_credentials_env_simps example_values)
  note et = save_despite_publish_error [OF ec ecd ep el]
  from et have e1: "fst (main no_credentials_env ''config.yml'' later_world) = Exited 0"
    by (simp add: ey eoc)
  from et have e2: "?line
      \<in> set (new_logged later_world (snd (main no_credentials_env ''config.yml'' later_world)))"
    by (simp add: es)
  from et ey eoc ef eu
  have e3: "Created (CountPath example_config)
      \<in> set (new_trace later_world (snd (main no_credentials_env ''config.yml'' later_world)))"
    "files (snd (main no_credentials_env ''config.yml'' later_world)) (CountPath example_config) =
      Some (fmt_Fprintf no_credentials_env events_yaml_7)"
    "loadCountCollections no_credentials_env (CountPath example_config)
       (snd (main no_credentials_env ''config.yml'' later_world)) = Inr (Some ?ecur)"
    by blast+
  show ?thesis
    using pc pcd pp pl ps py poc pf pu pd p1 p2 p3 ec ecd ep el es ey eoc ef eu e1 e2 e3 by simp
qed

section \<open>Saving and loading the counts\<close>

text \<open>
  Claim C6 (round trip). What \<^verbatim>\<open>loadCountCollections\<close> reads back after a successful
  \<^verbatim>\<open>writeCountCollections\<close> is the YAML library's reading of the text that
  \<^verbatim>\<open>fmt.Fprintf\<close> wrote when given the marshalled collections as its format string. It
  is the collections that were saved when that text went through \<^verbatim>\<open>Fprintf\<close> unchanged
  and the YAML library reads back what it marshals; a percent sign in a database or table
  name is a formatting directive to \<^verbatim>\<open>Fprintf\<close>, and the example shows the key that
  comes back then.
\<close>

theorem save_then_load:
  assumes "yaml_Marshal en countCollections = Inr yaml"
    and "os_Create en fileName = None"
  shows "files (snd (writeCountCollections en fileName countCollections w)) fileName =
           Some (fmt_Fprintf en yaml) \<and>
         loadCountCollections en fileName (snd (writeCountCollections en fileName countCollections w)) =
           yaml_Unmarshal en (fmt_Fprintf en yaml) \<and>
         (fmt_Fprintf en yaml = yaml \<longrightarrow> yaml_Unmarshal en yaml = Inr countCollections \<longrightarrow>
            loadCountCollections en fileName (snd (writeCountCollections en fileName countCollections w)) =
              Inr countCollections)"
  by (simp add: writeCountCollections_ok [OF assms] loadCountCollections_def record_event_simps)

theorem save_then_load_witness:
  "yaml_Marshal example_env percent_counts = Inr percent_yaml \<and>
   os_Create example_env ''counts.yml'' = None \<and>
   fmt_Fprintf example_env percent_yaml = missing_yaml \<and>
   files (snd (writeCountCollections example_env ''counts.yml'' percent_counts empty_world)) ''counts.yml'' =
     Some missing_yaml \<and>
   loadCountCollections example_env ''counts.yml''
       (snd (writeCountCollections example_env ''counts.yml'' percent_counts empty_world)) =
     Inr missing_counts \<and>
   missing_counts \<noteq> percent_counts \<and>
   yaml_Marshal example_env (events_counts 7) = Inr events_yaml_7 \<and>
   fmt_Fprintf example_env events_yaml_7 = events_yaml_7 \<and>
   yaml_Unmarshal example_env events_yaml_7 = Inr (events_counts 7) \<and>
   loadCountCollections example_env ''counts.yml''
       (snd (writeCountCollections example_env ''counts.yml'' (events_counts 7) empty_world)) =
     Inr (events_counts 7)"
proof -
  have y: "yaml_Marshal example_env percent_counts = Inr percent_yaml"
    by (simp add: example_env_simps example_values)
  have c: "os_Create example_env ''counts.yml'' = None"
    by (simp add: example_env_simps)
  have f: "fmt_Fprintf example_env percent_yaml = missing_yaml"
    by (simp add: example_env_simps percent_yaml_def missing_yaml_def)
  have u: "yaml_Unmarshal example_env missing_yaml = Inr missing_counts"
    by (simp add: example_env_simps example_values)
  have d: "missing_counts \<noteq> percent_counts"
    by (simp add: missing_counts_def percent_counts_def)
  have y7: "yaml_Marshal example_env (events_counts 7) = Inr events_yaml_7"
    by (simp add: example_env_simps example_values)
  have f7: "fmt_Fprintf example_env events_yaml_7 = events_yaml_7"
    by (rule example_Fprintf_7)
  have u7: "yaml_Unmarshal example_env events_yaml_7 = Inr (events_counts 7)"
    by (simp add: example_env_simps example_values)
  from save_then_load [OF y c, of empty_world] f u
  have "files (snd (writeCountCollections example_env ''counts.yml'' percent_counts empty_world)) ''counts.yml'' =
      Some missing_yaml"
    and "loadCountCollections example_env ''counts.yml''
        (snd (writeCountCollections example_env ''counts.yml'' percent_counts empty_world)) =
      Inr missing_counts"
    by simp_all
  moreover from save_then_load [OF y7 c, of empty_world] f7 u7
  have "loadCountCollections example_env ''counts.yml''
       (snd (writeCountCollections example_env ''counts.yml'' (events_counts 7) empty_world)) =
     Inr (events_counts 7)"
    by simp
  ultimately show ?thesis
    using y c f d y7 f7 u7 by simp
qed

section \<open>A database whose queries fail\<close>
















end
